theory Spec2Isabelle
  imports Main
begin

section \<open>JavaScript primitives used by the bridge\<close>

text \<open>
  Strings are lists of 8-bit characters: the model covers JavaScript strings whose code
  units are below 256. A JavaScript number is modelled as \<open>int option\<close> where it can be
  \<open>NaN\<close> (\<open>None\<close>); the integers that occur stay far below \<open>2 ^ 53\<close>, where doubles are
  exact. An exception is a value of \<open>js_error\<close> on the left of a sum.
\<close>

datatype js_error = TypeError

definition isHexDigit :: "char \<Rightarrow> bool" where
  "isHexDigit c = (c \<in> set ''0123456789abcdefABCDEF'')"

definition hexDigitValue :: "char \<Rightarrow> nat" where
  "hexDigitValue c = (let n = (of_char c :: nat) in
     if 48 \<le> n \<and> n \<le> 57 then n - 48
     else if 97 \<le> n \<and> n \<le> 102 then n - 87
     else if 65 \<le> n \<and> n \<le> 70 then n - 55 else 0)"

text \<open>White space as \<open>parseInt\<close> trims it and as \<open>\s\<close> matches it (code units below 256).\<close>

definition isWhiteSpace :: "char \<Rightarrow> bool" where
  "isWhiteSpace c = ((of_char c :: nat) \<in> {9, 10, 11, 12, 13, 32, 160})"

text \<open>The characters that \<open>.\<close> does not match in a regular expression.\<close>

definition isLineTerminator :: "char \<Rightarrow> bool" where
  "isLineTerminator c = ((of_char c :: nat) \<in> {10, 13})"

text \<open>
  \<open>parseInt(s, 16)\<close>: leading white space is dropped, then a sign, then a \<open>0x\<close> or \<open>0X\<close>
  prefix; the value is that of the longest run of hex digits that follows, \<open>NaN\<close> when
  the run is empty.
\<close>

definition parseInt16 :: "string \<Rightarrow> int option" where
  "parseInt16 s =
     (let S = dropWhile isWhiteSpace s;
          negative = (case S of [] \<Rightarrow> False | c # _ \<Rightarrow> c = CHR ''-'');
          S1 = (case S of [] \<Rightarrow> S
                | c # r \<Rightarrow> if c = CHR ''+'' \<or> c = CHR ''-'' then r else S);
          S2 = (case S1 of
                  a # b # r \<Rightarrow>
                    if a = CHR ''0'' \<and> (b = CHR ''x'' \<or> b = CHR ''X'') then r else S1
                | _ \<Rightarrow> S1);
          Z = takeWhile isHexDigit S2
      in if Z = [] then None
         else Some ((if negative then - 1 else 1) *
                    int (foldl (\<lambda>acc c. 16 * acc + hexDigitValue c) 0 Z)))"

fun toString16 :: "nat \<Rightarrow> string" where
  "toString16 n = (if n < 16 then [''0123456789abcdef'' ! n]
                   else toString16 (n div 16) @ [''0123456789abcdef'' ! (n mod 16)])"

declare toString16.simps [simp del]

fun toString2 :: "nat \<Rightarrow> string" where
  "toString2 n = (if n < 2 then [''01'' ! n]
                  else toString2 (n div 2) @ [''01'' ! (n mod 2)])"

declare toString2.simps [simp del]

text \<open>\<open>Number.prototype.toString(16)\<close> on an integer or \<open>NaN\<close>.\<close>

definition numberToString16 :: "int option \<Rightarrow> string" where
  "numberToString16 x =
     (case x of None \<Rightarrow> ''NaN''
      | Some n \<Rightarrow> if n < 0 then CHR ''-'' # toString16 (nat (- n)) else toString16 (nat n))"

text \<open>Addition of two numbers, either of which may be \<open>NaN\<close>.\<close>

definition js_add :: "int option \<Rightarrow> int option \<Rightarrow> int option" where
  "js_add a b = (case a of None \<Rightarrow> None
                 | Some x \<Rightarrow> (case b of None \<Rightarrow> None | Some y \<Rightarrow> Some (x + y)))"

text \<open>
  The matches of \<open>/.{1,2}/g\<close>, left to right: two characters when both are no line
  terminators, one when only the first is; a line terminator is skipped.
  \<open>String.prototype.match\<close> returns \<open>null\<close> when there is no match at all.
\<close>

fun matchPairs :: "string \<Rightarrow> string list" where
  "matchPairs [] = []"
| "matchPairs [a] = (if isLineTerminator a then [] else [[a]])"
| "matchPairs (a # b # r) =
     (if isLineTerminator a then matchPairs (b # r)
      else if isLineTerminator b then [a] # matchPairs r
      else [a, b] # matchPairs r)"

text \<open>\<open>s.slice(-2)\<close>: the last two characters, or all of a shorter string.\<close>

definition sliceLast2 :: "string \<Rightarrow> string" where
  "sliceLast2 s = drop (length s - 2) s"

text \<open>\<open>s.padStart(8, '0')\<close>.\<close>

definition padStart8 :: "string \<Rightarrow> string" where
  "padStart8 s = replicate (8 - length s) CHR ''0'' @ s"

text \<open>
  \<open>Buffer.from(array)\<close>: every entry becomes one byte, \<open>NaN\<close> becomes 0 and other numbers
  are taken modulo 256. \<open>buffer.toString('hex')\<close> renders every byte as two lower-case
  hex digits.
\<close>

definition Buffer_from :: "int option list \<Rightarrow> nat list" where
  "Buffer_from xs = map (\<lambda>x. case x of None \<Rightarrow> 0 | Some n \<Rightarrow> nat (n mod 256)) xs"

definition byteToHex :: "nat \<Rightarrow> string" where
  "byteToHex b = [''0123456789abcdef'' ! ((b div 16) mod 16), ''0123456789abcdef'' ! (b mod 16)]"

definition toStringHex :: "nat list \<Rightarrow> string" where
  "toStringHex data = concat (map byteToHex data)"

section \<open>Configuration\<close>

text \<open>
  The configuration module is supplied by the installation; the repository ships
  \<open>config-example/config.mjs\<close>. The command preamble and the content offsets are taken
  from that example, the sensor catalog, the topics and the discovery switch are
  parameters.
\<close>

record position =
  hex :: string
  name :: "string option"
  name_ha :: "string option"
  type :: "string option"
  topic :: string
  location :: "string option"
  inverted :: bool

record content_config =
  offset :: nat
  positions :: "position list"

record config =
  Discover :: bool
  SICHERUNGSBEREICH :: content_config
  SICHERUNGSBEREICH2 :: content_config
  MELDEBEREICHE :: content_config
  MELDEGRUPPEN :: content_config
  stateTopic :: string
  diagnosticsTopic :: string

definition COMMAND_SB_STATE_ON :: string where
  "COMMAND_SB_STATE_ON = ''680909687301050200''"

text \<open>\<open>config.Telenot[contentName]\<close> for the names of the content areas.\<close>

definition Telenot_area :: "config \<Rightarrow> string \<Rightarrow> content_config option" where
  "Telenot_area c contentName =
     (if contentName = ''SICHERUNGSBEREICH'' then Some (SICHERUNGSBEREICH c)
      else if contentName = ''SICHERUNGSBEREICH2'' then Some (SICHERUNGSBEREICH2 c)
      else if contentName = ''MELDEBEREICHE'' then Some (MELDEBEREICHE c)
      else if contentName = ''MELDEGRUPPEN'' then Some (MELDEGRUPPEN c)
      else None)"

section \<open>State of the bridge and its effects\<close>

datatype level = ERROR | WARN | INFO | DISCOVER | VERBOSE | DEBUG

datatype jval = JStr string | JBool bool | JNull

text \<open>
  A published message is a plain string or the object handed to \<open>JSON.stringify\<close>, kept
  as its list of members (a member whose value is \<open>undefined\<close> is left out, as
  \<open>JSON.stringify\<close> does).
\<close>

datatype message = Text string | Json "(string \<times> jval) list"

datatype TelenotMsgType =
    SEND_NORM | MP | SB | CONF_ACK | SYS_INT_ARMED | SYS_EXT_ARMED | SYS_DISARMED | ALARM
  | INVALID | SEND_NDAT | INTRUSION | BATTERY_MALFUNCTION | POWER_OUTAGE
  | OPTICAL_FLASHER_MALFUNCTION | HORN_1_MALFUNCTION | HORN_2_MALFUNCTION | COM_FAULT | RESTART
  | USED_INPUTS | USED_OUTPUTS | USED_CONTACTS_INFO | USED_OUTPUT_CONTACTS_INFO
  | USED_SB_CONTACTS_INFO | USED_MB_CONTACTS_INFO | NOT_USED_CONTACT

text \<open>
  What \<open>getMsgType\<close> returns: a message type, or, because the prefix table is a plain
  object, the member of \<open>Object.prototype\<close> that the first eight characters name.
\<close>

datatype msg_result = Msg TelenotMsgType | PrototypeMember string

text \<open>One constructor for every log line of the modelled code, with its interpolated values.\<close>

datatype logmsg =
    Invalid_parameters_for_SB_area
  | Unknown_content_name string
  | Attempting_to_send_command string string
  | Cannot_send_command_Invalid_command_generated_for string
  | Cannot_send_command_Socket_is_not_connected
  | Sending string string
  | sent_successfully string string
  | Failed_to_send string
  | Error_writing_data_to_socket
  | Data_successfully_written_to_socket string
  | Executing_command string string bool
  | Unknown_command string
  | Discovery_Detection
  | Discovery_position string nat nat string string "char option"
  | Published_state_change string message
  | Failed_to_publish string
  | Parsed_msgType msg_result
  | Confirmation_ACK_received
  | Published_to string message
  | Failed_to_publish_to string
  | System_restart_detected
  | Unknown_Message_Type string
  | Attempted_to_handle_data_on_a_closed_socket
  | Processing_hex_string string
  | Sending_response string
  | Error_handling_data
  | Connected_to_TCP_converter
  | Socket_error
  | Socket_connection_closed
  | Socket_connection_timed_out
  | Attempting_to_reconnect nat nat
  | Max_reconnection_attempts_reached

text \<open>
  A byte map is a JavaScript \<open>Map\<close> from byte index to byte value, in insertion order.
\<close>

type_synonym byteMap = "(nat \<times> nat) list"

text \<open>
  The mutable state of the objects of the bridge, in one record: the night-mode flag of
  \<open>VirtualStateHandler\<close>, the static flag of \<open>SocketHandler\<close>, the two maps of
  \<open>StateManager\<close>, the fields of \<open>SocketManager\<close>, and what the bridge has done to the
  outside: timers armed, sockets created, buffers written to the socket, messages
  published, lines logged.
\<close>

record bridge =
  virtualNightMode :: bool
  readyToSendData :: bool
  statesPrevious :: "string \<rightharpoonup> byteMap"
  lastPublishedStates :: "string \<rightharpoonup> string"
  socket :: bool
  isConnected :: bool
  reconnectAttempts :: nat
  maxReconnectAttempts :: nat
  reconnectTimeout :: "nat option"
  timers :: "nat list"
  timersCreated :: nat
  socketsCreated :: nat
  written :: "nat list list"
  published :: "(string \<times> message \<times> bool) list"
  logged :: "(level \<times> logmsg) list"

text \<open>
  The outside world: whether the n-th publish and the n-th socket write succeed, and the
  clock read by \<open>new Date().toISOString()\<close>. Asynchronous steps are run to completion
  in program order.
\<close>

record env =
  cfg :: config
  publish_ok :: "nat \<Rightarrow> bool"
  write_ok :: "nat \<Rightarrow> bool"
  clock :: "nat \<Rightarrow> string"

definition logger :: "level \<Rightarrow> logmsg \<Rightarrow> bridge \<Rightarrow> bridge" where
  "logger l m s = s\<lparr>logged := logged s @ [(l, m)]\<rparr>"

definition toISOString :: "env \<Rightarrow> bridge \<Rightarrow> string" where
  "toISOString e s = clock e (length (published s) + length (logged s))"

datatype promise = Resolved | Rejected

section \<open>SocketManager: sending\<close>

definition getConnectionStatus :: "bridge \<Rightarrow> bool" where
  "getConnectionStatus s = isConnected s"

definition sendData :: "env \<Rightarrow> nat list \<Rightarrow> bridge \<Rightarrow> promise \<times> bridge" where
  "sendData e data s =
     (if \<not> socket s \<or> \<not> isConnected s then (Rejected, s)
      else let k = length (written s);
               s1 = s\<lparr>written := written s @ [data]\<rparr>
           in if write_ok e k
              then (Resolved, logger DEBUG (Data_successfully_written_to_socket (toStringHex data)) s1)
              else (Rejected, logger ERROR Error_writing_data_to_socket s1))"

section \<open>Telenot: the command encoder\<close>

definition calculateChecksum :: "string \<Rightarrow> js_error + string" where
  "calculateChecksum message =
     (if message = [] then Inr ''00''
      else case matchPairs (drop 8 message) of
             [] \<Rightarrow> Inl TypeError
           | pairs \<Rightarrow>
               Inr (sliceLast2 (numberToString16
                      (foldl (\<lambda>sum byte. js_add sum (parseInt16 byte)) (Some 0) pairs))))"

definition createCommandMessage ::
    "int \<Rightarrow> int \<Rightarrow> string \<Rightarrow> bridge \<Rightarrow> (js_error + string) \<times> bridge" where
  "createCommandMessage address baseHex commandHex s =
     (if address < 1 \<or> address > 8
      then (Inr ''error'', logger ERROR Invalid_parameters_for_SB_area s)
      else let hex = numberToString16 (Some (baseHex + address * 8));
               msg = COMMAND_SB_STATE_ON @ ''0'' @ hex @ ''02'' @ commandHex
           in case calculateChecksum msg of
                Inl err \<Rightarrow> (Inl err, s)
              | Inr checksum \<Rightarrow> (Inr (msg @ checksum @ ''16''), s))"

definition hexToBytes :: "string \<Rightarrow> js_error + int option list" where
  "hexToBytes h = (case matchPairs h of [] \<Rightarrow> Inl TypeError
                   | pairs \<Rightarrow> Inr (map parseInt16 pairs))"

text \<open>
  \<open>sendCommand\<close> returns a promise; a synchronous exception (from \<open>hexToBytes\<close>) is the
  left summand.
\<close>

definition sendCommand ::
    "env \<Rightarrow> string \<Rightarrow> string \<Rightarrow> bridge \<Rightarrow> (js_error + promise) \<times> bridge" where
  "sendCommand e command action s =
     (let s1 = logger DEBUG (Attempting_to_send_command command action) s in
      if command = []
      then (Inr Rejected,
            logger WARN (Cannot_send_command_Invalid_command_generated_for action) s1)
      else if \<not> getConnectionStatus s1
      then (Inr Rejected, logger ERROR Cannot_send_command_Socket_is_not_connected s1)
      else let s2 = logger INFO (Sending action command) s1 in
           case hexToBytes command of
             Inl err \<Rightarrow> (Inl err, s2)
           | Inr bytes \<Rightarrow>
               (case sendData e (Buffer_from bytes) s2 of
                  (Resolved, s3) \<Rightarrow>
                    (Inr Resolved, logger INFO (sent_successfully action command) s3)
                | (Rejected, s3) \<Rightarrow> (Inr Rejected, logger ERROR (Failed_to_send action) s3)))"

text \<open>
  The four operations. None of them looks at the promise; an exception of the encoder
  or of \<open>sendCommand\<close> propagates.
\<close>

definition armOperation ::
    "env \<Rightarrow> int \<Rightarrow> int \<Rightarrow> string \<Rightarrow> string \<Rightarrow> bridge \<Rightarrow> (js_error + unit) \<times> bridge" where
  "armOperation e address baseHex commandHex action s =
     (case createCommandMessage address baseHex commandHex s of
        (Inl err, s1) \<Rightarrow> (Inl err, s1)
      | (Inr command, s1) \<Rightarrow>
          (case sendCommand e command action s1 of
             (Inl err, s2) \<Rightarrow> (Inl err, s2)
           | (Inr _, s2) \<Rightarrow> (Inr (), s2)))"

definition disarmArea :: "env \<Rightarrow> int \<Rightarrow> bridge \<Rightarrow> (js_error + unit) \<times> bridge" where
  "disarmArea e address = armOperation e address 1320 ''E1'' ''disarmArea''"

definition intArmArea :: "env \<Rightarrow> int \<Rightarrow> bridge \<Rightarrow> (js_error + unit) \<times> bridge" where
  "intArmArea e address = armOperation e address 1321 ''62'' ''intArmArea''"

definition extArmArea :: "env \<Rightarrow> int \<Rightarrow> bridge \<Rightarrow> (js_error + unit) \<times> bridge" where
  "extArmArea e address = armOperation e address 1322 ''61'' ''extArmArea''"

definition resetArmArea :: "env \<Rightarrow> int \<Rightarrow> bridge \<Rightarrow> (js_error + unit) \<times> bridge" where
  "resetArmArea e address = armOperation e address 1323 ''52'' ''resetArmArea''"

section \<open>VirtualStateHandler\<close>

definition mapToExternalState :: "string \<Rightarrow> bridge \<Rightarrow> string" where
  "mapToExternalState internalState s =
     (if internalState = ''armed_home'' \<and> virtualNightMode s then ''armed_night''
      else internalState)"

definition mapToInternalState :: "string \<Rightarrow> bridge \<Rightarrow> string \<times> bridge" where
  "mapToInternalState command s =
     (if command = ''ARM_NIGHT'' then (''ARM_HOME'', s\<lparr>virtualNightMode := True\<rparr>)
      else (command, s\<lparr>virtualNightMode := False\<rparr>))"

definition isVirtualNightMode :: "bridge \<Rightarrow> bool" where
  "isVirtualNightMode s = virtualNightMode s"

definition resetVirtualModes :: "bridge \<Rightarrow> bridge" where
  "resetVirtualModes s = s\<lparr>virtualNightMode := False\<rparr>"

section \<open>CommandHandler\<close>

text \<open>
  The command map is a plain object: besides its five own entries, a lookup finds the
  members inherited from \<open>Object.prototype\<close>, all of them truthy.
\<close>

definition objectPrototypeMembers :: "string list" where
  "objectPrototypeMembers =
     [''constructor'', ''__defineGetter__'', ''__defineSetter__'', ''hasOwnProperty'',
      ''__lookupGetter__'', ''__lookupSetter__'', ''isPrototypeOf'', ''propertyIsEnumerable'',
      ''toString'', ''valueOf'', ''__proto__'', ''toLocaleString'']"

datatype action = DISARM | ARM_HOME | ARM_AWAY | ARM_NIGHT | RESET | Inherited string

definition commandMap :: "string \<Rightarrow> action option" where
  "commandMap k =
     (if k = ''DISARM'' then Some DISARM
      else if k = ''ARM_HOME'' then Some ARM_HOME
      else if k = ''ARM_AWAY'' then Some ARM_AWAY
      else if k = ''ARM_NIGHT'' then Some ARM_NIGHT
      else if k = ''RESET'' then Some RESET
      else if k \<in> set objectPrototypeMembers then Some (Inherited k)
      else None)"

text \<open>
  Calling an inherited member without a receiver returns for \<open>constructor\<close>, \<open>toString\<close>
  and \<open>isPrototypeOf\<close> and raises a \<open>TypeError\<close> for the others; it touches no state
  of the bridge.
\<close>

fun runAction :: "env \<Rightarrow> action \<Rightarrow> bridge \<Rightarrow> (js_error + unit) \<times> bridge" where
  "runAction e DISARM s = disarmArea e 1 (resetVirtualModes s)"
| "runAction e ARM_HOME s = intArmArea e 1 s"
| "runAction e ARM_AWAY s = extArmArea e 1 s"
| "runAction e ARM_NIGHT s = intArmArea e 1 (snd (mapToInternalState ''ARM_NIGHT'' s))"
| "runAction e RESET s = resetArmArea e 1 s"
| "runAction e (Inherited k) s =
     (if k \<in> set [''constructor'', ''toString'', ''isPrototypeOf''] then (Inr (), s)
      else (Inl TypeError, s))"

definition handleCommand :: "env \<Rightarrow> string \<Rightarrow> bridge \<Rightarrow> (js_error + bool) \<times> bridge" where
  "handleCommand e command s =
     (case mapToInternalState command s of
        (internalCommand, s1) \<Rightarrow>
          (case commandMap internalCommand of
             Some action \<Rightarrow>
               (let s2 = logger VERBOSE
                           (Executing_command command internalCommand (command = ''ARM_NIGHT'')) s1
                in case runAction e action s2 of
                     (Inl err, s3) \<Rightarrow> (Inl err, s3)
                   | (Inr _, s3) \<Rightarrow> (Inr True, s3))
           | None \<Rightarrow> (Inr False, logger VERBOSE (Unknown_command command) s1)))"

section \<open>StateManager\<close>

definition reverseBinary :: "nat \<Rightarrow> string" where
  "reverseBinary num = rev (padStart8 (toString2 num))"

text \<open>\<open>str[i]\<close>: \<open>undefined\<close> beyond the end of the string.\<close>

definition charAt :: "string \<Rightarrow> nat \<Rightarrow> char option" where
  "charAt str i = (if i < length str then Some (str ! i) else None)"

definition mapBinaryValue :: "char option \<Rightarrow> bool \<Rightarrow> string" where
  "mapBinaryValue value isInverted =
     (if (if isInverted then value = Some CHR ''0'' else value = Some CHR ''1'') then ''ON'' else ''OFF'')"

text \<open>
  The letters below code unit 256 whose other case is below 256 too: A to Z and the
  accented capitals from 0xC0 to 0xDE (without the multiplication sign 0xD7).
\<close>

definition upperLetters :: string where
  "upperLetters = ''ABCDEFGHIJKLMNOPQRSTUVWXYZ'' @
       [CHR 0xC0, CHR 0xC1, CHR 0xC2, CHR 0xC3, CHR 0xC4, CHR 0xC5, CHR 0xC6, CHR 0xC7,
        CHR 0xC8, CHR 0xC9, CHR 0xCA, CHR 0xCB, CHR 0xCC, CHR 0xCD, CHR 0xCE, CHR 0xCF,
        CHR 0xD0, CHR 0xD1, CHR 0xD2, CHR 0xD3, CHR 0xD4, CHR 0xD5, CHR 0xD6, CHR 0xD8,
        CHR 0xD9, CHR 0xDA, CHR 0xDB, CHR 0xDC, CHR 0xDD, CHR 0xDE]"

definition lowerLetters :: string where
  "lowerLetters = ''abcdefghijklmnopqrstuvwxyz'' @
       [CHR 0xE0, CHR 0xE1, CHR 0xE2, CHR 0xE3, CHR 0xE4, CHR 0xE5, CHR 0xE6, CHR 0xE7,
        CHR 0xE8, CHR 0xE9, CHR 0xEA, CHR 0xEB, CHR 0xEC, CHR 0xED, CHR 0xEE, CHR 0xEF,
        CHR 0xF0, CHR 0xF1, CHR 0xF2, CHR 0xF3, CHR 0xF4, CHR 0xF5, CHR 0xF6, CHR 0xF8,
        CHR 0xF9, CHR 0xFA, CHR 0xFB, CHR 0xFC, CHR 0xFD, CHR 0xFE]"

definition charToLowerCase :: "char \<Rightarrow> char" where
  "charToLowerCase c = (case map_of (zip upperLetters lowerLetters) c of Some l \<Rightarrow> l | None \<Rightarrow> c)"

definition toLowerCase :: "string \<Rightarrow> string" where
  "toLowerCase str = map charToLowerCase str"

text \<open>\<open>str.replace(/\s+/g, '_')\<close>: every maximal run of white space becomes one underscore.\<close>

function replaceWhiteSpace :: "string \<Rightarrow> string" where
  "replaceWhiteSpace [] = []"
| "replaceWhiteSpace (c # r) =
     (if isWhiteSpace c then CHR ''_'' # replaceWhiteSpace (dropWhile isWhiteSpace r)
      else c # replaceWhiteSpace r)"
  by pat_completeness auto
termination
  by (relation "measure length") (auto simp: less_Suc_eq_le length_dropWhile_le)

definition truthy :: "string option \<Rightarrow> bool" where
  "truthy x = (case x of None \<Rightarrow> False | Some str \<Rightarrow> str \<noteq> [])"

definition jsonObject :: "(string \<times> jval option) list \<Rightarrow> message" where
  "jsonObject members = Json (List.map_filter (\<lambda>(k, v). map_option (Pair k) v) members)"

definition getPreviousBit :: "string \<Rightarrow> nat \<Rightarrow> nat \<Rightarrow> bridge \<Rightarrow> string" where
  "getPreviousBit contentName byteIndex bitIndex s =
     (case statesPrevious s contentName of
        None \<Rightarrow> ''N/A''
      | Some m \<Rightarrow>
          (case map_of m byteIndex of
             None \<Rightarrow> ''N/A''
           | Some prevValue \<Rightarrow>
               (case charAt (reverseBinary prevValue) bitIndex of
                  Some c \<Rightarrow> [c]
                | None \<Rightarrow> ''N/A'')))"

definition statePayload :: "env \<Rightarrow> position \<Rightarrow> string \<Rightarrow> string \<Rightarrow> bridge \<Rightarrow> message" where
  "statePayload e pos posName state s =
     jsonObject
       [(''id'', Some (JStr (replaceWhiteSpace (toLowerCase posName) @ ''_'' @ hex pos))),
        (''name'', map_option JStr (name_ha pos)),
        (''type'', map_option JStr (type pos)),
        (''state'', Some (JStr state)),
        (''location'', map_option JStr (location pos)),
        (''last_triggered'', Some (JStr (toISOString e s)))]"

definition publishState ::
    "env \<Rightarrow> position \<Rightarrow> char option \<Rightarrow> nat \<Rightarrow> nat \<Rightarrow> string \<Rightarrow> bridge \<Rightarrow> bridge" where
  "publishState e pos bitValue byteIndex bitIndex contentName s =
     (let state = mapBinaryValue bitValue (inverted pos) in
      if lastPublishedStates s (topic pos) = Some state then s
      else
        let isUnknown = \<not> truthy (name pos);
            s1 = (if Discover (cfg e) \<and> isUnknown
                  then logger DISCOVER
                         (Discovery_position contentName byteIndex bitIndex (hex pos)
                            (getPreviousBit contentName byteIndex bitIndex s) bitValue)
                         (logger DISCOVER Discovery_Detection s)
                  else s)
        in case name pos of
             None \<Rightarrow> s1
           | Some posName \<Rightarrow>
               if posName = [] then s1
               else
                 let payload = statePayload e pos posName state s1;
                     k = length (published s1);
                     s2 = s1\<lparr>published := published s1 @ [(topic pos, payload, True)]\<rparr>
                 in if publish_ok e k
                    then (logger INFO (Published_state_change (topic pos) payload) s2)
                           \<lparr>lastPublishedStates := (lastPublishedStates s2)(topic pos \<mapsto> state)\<rparr>
                    else logger ERROR (Failed_to_publish (topic pos)) s2)"

text \<open>The callback of \<open>positions.filter\<close> in \<open>processStateChanges\<close>; a comparison with \<open>NaN\<close> is false.\<close>

definition relevantPosition :: "nat \<Rightarrow> position \<Rightarrow> bool" where
  "relevantPosition byteIndex pos =
     (case parseInt16 (hex pos) of
        None \<Rightarrow> False
      | Some posIndex \<Rightarrow> posIndex \<ge> int byteIndex * 8 \<and> posIndex < (int byteIndex + 1) * 8)"

text \<open>
  \<open>parseInt(position.hex, 16) % 8\<close> for a relevant position, whose index is not negative.
\<close>

definition bitIndexOf :: "position \<Rightarrow> nat" where
  "bitIndexOf pos = (case parseInt16 (hex pos) of None \<Rightarrow> 0 | Some posIndex \<Rightarrow> nat posIndex mod 8)"

text \<open>The loop over the relevant positions.\<close>

fun publishChangedBits ::
    "env \<Rightarrow> string \<Rightarrow> string \<Rightarrow> nat \<Rightarrow> string \<Rightarrow> position list \<Rightarrow> bridge \<Rightarrow> bridge" where
  "publishChangedBits e newBinary oldBinary byteIndex contentName [] s = s"
| "publishChangedBits e newBinary oldBinary byteIndex contentName (pos # rest) s =
     (let bitIndex = bitIndexOf pos in
      publishChangedBits e newBinary oldBinary byteIndex contentName rest
        (if charAt newBinary bitIndex \<noteq> charAt oldBinary bitIndex
         then publishState e pos (charAt newBinary bitIndex) byteIndex bitIndex contentName s
         else s))"

definition processStateChanges ::
    "env \<Rightarrow> nat \<Rightarrow> nat \<Rightarrow> nat \<Rightarrow> position list \<Rightarrow> string \<Rightarrow> bridge \<Rightarrow> bridge" where
  "processStateChanges e newValue oldValue byteIndex poss contentName s =
     (let newBinary = reverseBinary newValue;
          oldBinary = reverseBinary oldValue;
          relevantPositions = filter (relevantPosition byteIndex) poss
      in publishChangedBits e newBinary oldBinary byteIndex contentName relevantPositions s)"

text \<open>
  \<open>publishPositionStates\<close>: the keys of a byte map are byte indices, so the lookup of
  \<open>NaN\<close> or of a negative index finds nothing.
\<close>

fun publishPositionStates :: "env \<Rightarrow> byteMap \<Rightarrow> position list \<Rightarrow> string \<Rightarrow> bridge \<Rightarrow> bridge" where
  "publishPositionStates e bm [] contentName s = s"
| "publishPositionStates e bm (pos # rest) contentName s =
     publishPositionStates e bm rest contentName
       (case parseInt16 (hex pos) of
          None \<Rightarrow> s
        | Some posIndex \<Rightarrow>
            (if posIndex < 0 then s
             else
               (let byteIndex = nat posIndex div 8;
                    bitIndex = nat posIndex mod 8
                in (case map_of bm byteIndex of
                      None \<Rightarrow> s
                    | Some byteValue \<Rightarrow>
                        (let binaryStr = reverseBinary byteValue in
                         if charAt binaryStr bitIndex \<noteq> None
                         then publishState e pos (charAt binaryStr bitIndex) byteIndex bitIndex
                                contentName s
                         else s)))))"

text \<open>The loop over the entries of the new byte map, compared with the previous map.\<close>

fun processChangedBytes ::
    "env \<Rightarrow> byteMap \<Rightarrow> position list \<Rightarrow> string \<Rightarrow> byteMap \<Rightarrow> bridge \<Rightarrow> bridge" where
  "processChangedBytes e prevMap poss contentName [] s = s"
| "processChangedBytes e prevMap poss contentName ((byteIndex, byteValue) # rest) s =
     processChangedBytes e prevMap poss contentName rest
       (if map_of prevMap byteIndex \<noteq> Some byteValue
        then processStateChanges e byteValue
               (case map_of prevMap byteIndex of None \<Rightarrow> 0 | Some v \<Rightarrow> v)
               byteIndex poss contentName s
        else s)"

definition handleStateChange ::
    "env \<Rightarrow> byteMap \<Rightarrow> string \<Rightarrow> content_config \<Rightarrow> bridge \<Rightarrow> bridge" where
  "handleStateChange e bm contentName contentConfig s =
     (case statesPrevious s contentName of
        None \<Rightarrow>
          publishPositionStates e bm (positions contentConfig) contentName
            (s\<lparr>statesPrevious := (statesPrevious s)(contentName \<mapsto> bm)\<rparr>)
      | Some prevMap \<Rightarrow>
          (let s1 = processChangedBytes e prevMap (positions contentConfig) contentName bm s
           in s1\<lparr>statesPrevious := (statesPrevious s1)(contentName \<mapsto> bm)\<rparr>))"

section \<open>Telenot: decoding\<close>

definition decodeHex :: "env \<Rightarrow> nat list \<Rightarrow> string \<Rightarrow> bridge \<Rightarrow> bridge" where
  "decodeHex e data contentName s =
     (case Telenot_area (cfg e) contentName of
        None \<Rightarrow> logger ERROR (Unknown_content_name contentName) s
      | Some contentConfig \<Rightarrow>
          (let parts = drop (offset contentConfig) data;
               bm = zip [0 ..< length parts] parts
           in handleStateChange e bm contentName contentConfig s))"

section \<open>SocketHandler: classification\<close>

text \<open>
  The regular expressions of \<open>matchHexStrToMsgType\<close> are anchored sequences of
  one-character items, some followed by \<open>.*16$\<close>.
\<close>

datatype item = Lit char | OneOf string | HexDigit | AnyChar

fun matchItem :: "item \<Rightarrow> char \<Rightarrow> bool" where
  "matchItem (Lit l) c = (c = l)"
| "matchItem (OneOf cs) c = (c \<in> set cs)"
| "matchItem HexDigit c = isHexDigit c"
| "matchItem AnyChar c = (\<not> isLineTerminator c)"

fun matchPrefix :: "item list \<Rightarrow> string \<Rightarrow> string option" where
  "matchPrefix [] str = Some str"
| "matchPrefix (i # is) [] = None"
| "matchPrefix (i # is) (c # cs) = (if matchItem i c then matchPrefix is cs else None)"

text \<open>\<open>/^items/.test(str)\<close>\<close>

definition testPrefix :: "item list \<Rightarrow> string \<Rightarrow> bool" where
  "testPrefix is str = (matchPrefix is str \<noteq> None)"

text \<open>\<open>/^items.*16$/.test(str)\<close>\<close>

definition testPrefixTo16 :: "item list \<Rightarrow> string \<Rightarrow> bool" where
  "testPrefixTo16 is str =
     (case matchPrefix is str of
        None \<Rightarrow> False
      | Some r \<Rightarrow> 2 \<le> length r \<and> drop (length r - 2) r = ''16''
                  \<and> \<not> list_ex isLineTerminator (take (length r - 2) r))"

definition lits :: "string \<Rightarrow> item list" where
  "lits str = map Lit str"

definition matchHexStrToMsgType :: "string \<Rightarrow> TelenotMsgType option" where
  "matchHexStrToMsgType hexStr =
     (if testPrefix (lits ''6802026840024216'') hexStr then Some SEND_NORM
      else if testPrefix (lits ''6802026800020216'') hexStr then Some CONF_ACK
      else if testPrefixTo16 (lits ''68'' @ replicate 4 HexDigit @ lits ''687302''
                 @ replicate 2 HexDigit @ lits ''2400000001'') hexStr then Some MP
      else if testPrefixTo16 (lits ''68'' @ replicate 4 HexDigit @ lits ''687302''
                 @ replicate 2 HexDigit @ lits ''2400050002'') hexStr then Some SB
      else if testPrefix (lits ''682'' @ [OneOf ''c|C''] @ lits ''2'' @ [OneOf ''c|C'']
                 @ lits ''68730205020005310162'') hexStr then Some SYS_INT_ARMED
      else if testPrefix (lits ''682'' @ [OneOf ''c|C''] @ lits ''2'' @ [OneOf ''c|C'']
                 @ lits ''68730205020005320161'') hexStr then Some SYS_EXT_ARMED
      else if testPrefix (lits ''682'' @ [OneOf ''c|C''] @ lits ''2'' @ [OneOf ''c|C'']
                 @ lits ''687302050200053001'' @ [OneOf ''e|E''] @ lits ''1'') hexStr
           then Some SYS_DISARMED
      else if testPrefix (lits ''682'' @ [OneOf ''c|C''] @ lits ''2'' @ [OneOf ''c|C'']
                 @ lits ''6873020502000540'') hexStr then Some ALARM
      else if testPrefix (lits ''68'' @ replicate 2 HexDigit @ replicate 2 HexDigit
                 @ lits ''687302050201002b'') hexStr then Some ALARM
      else if testPrefix (lits ''682'' @ [OneOf ''C|c''] @ lits ''2'' @ [OneOf ''C|c'']
                 @ lits ''687302050201001001'') hexStr then Some INTRUSION
      else if testPrefix (lits ''681'' @ [OneOf ''A|a''] @ lits ''1'' @ [OneOf ''A|a'']
                 @ lits ''687302050200001401'') hexStr then Some BATTERY_MALFUNCTION
      else if testPrefix (lits ''681'' @ [OneOf ''A|a''] @ lits ''1'' @ [OneOf ''A|a'']
                 @ lits ''687302050200001501'') hexStr then Some POWER_OUTAGE
      else if testPrefix (lits ''681'' @ [OneOf ''A|a''] @ lits ''1'' @ [OneOf ''A|a'']
                 @ lits ''687302050200001301'') hexStr then Some OPTICAL_FLASHER_MALFUNCTION
      else if testPrefix (lits ''681'' @ [OneOf ''A|a''] @ lits ''1'' @ [OneOf ''A|a'']
                 @ lits ''687302050200001101'') hexStr then Some HORN_1_MALFUNCTION
      else if testPrefix (lits ''681'' @ [OneOf ''A|a''] @ lits ''1'' @ [OneOf ''A|a'']
                 @ lits ''687302050200001201'') hexStr then Some HORN_2_MALFUNCTION
      else if testPrefix (lits ''681'' @ [OneOf ''A|a''] @ lits ''1'' @ [OneOf ''A|a'']
                 @ lits ''687302050200001701'') hexStr then Some COM_FAULT
      else if testPrefixTo16 (lits ''68'' @ replicate 4 HexDigit @ lits ''687302''
                 @ replicate 2 HexDigit @ replicate 4 HexDigit @ replicate 4 (OneOf ''F|f'')
                 @ lits ''0153'') hexStr then Some RESTART
      else if testPrefix (lits ''68'' @ [AnyChar, AnyChar] @ lits ''68730'') hexStr
           then Some SEND_NDAT
      else None)"

text \<open>
  \<open>START_TO_MSG_TYPE[key]\<close>: the two own entries, else a member inherited from
  \<open>Object.prototype\<close>, else \<open>undefined\<close>.
\<close>

definition START_TO_MSG_TYPE :: "string \<Rightarrow> msg_result option" where
  "START_TO_MSG_TYPE k =
     (if k = ''68020268'' then Some (Msg SEND_NORM)
      else if k = ''682C2C68'' then Some (Msg MP)
      else if k \<in> set objectPrototypeMembers then Some (PrototypeMember k)
      else None)"

definition getMsgType :: "string \<Rightarrow> msg_result" where
  "getMsgType hexStr =
     (case matchHexStrToMsgType hexStr of
        Some msgTypeFull \<Rightarrow> Msg msgTypeFull
      | None \<Rightarrow>
          (case START_TO_MSG_TYPE (take 8 hexStr) of
             Some msgType \<Rightarrow> msgType
           | None \<Rightarrow> Msg INVALID))"

section \<open>SocketHandler: reacting to a frame\<close>

definition CONF_ACK_buffer :: "nat list" where
  "CONF_ACK_buffer = [0x68, 0x02, 0x02, 0x68, 0x00, 0x02, 0x02, 0x16]"

definition publishToMQTT :: "env \<Rightarrow> string \<Rightarrow> message \<Rightarrow> bridge \<Rightarrow> bridge" where
  "publishToMQTT e topicName msg s =
     (let k = length (published s);
          s1 = s\<lparr>published := published s @ [(topicName, msg, True)]\<rparr>
      in if publish_ok e k then logger INFO (Published_to topicName msg) s1
         else logger ERROR (Failed_to_publish_to topicName) s1)"

text \<open>A diagnostics object \<open>{state, timestamp}\<close> with further members.\<close>

definition stateRecord :: "env \<Rightarrow> string \<Rightarrow> (string \<times> jval option) list \<Rightarrow> bridge \<Rightarrow> message" where
  "stateRecord e st others s =
     jsonObject ([(''state'', Some (JStr st)), (''timestamp'', Some (JStr (toISOString e s)))] @ others)"

text \<open>
  \<open>parseData\<close>: the \<open>switch\<close> over the message type, as a chain of comparisons. The
  names of the two content areas are those of the example configuration. Every branch
  returns the acknowledgement frame.
\<close>

definition parseData :: "env \<Rightarrow> string \<Rightarrow> nat list \<Rightarrow> bridge \<Rightarrow> nat list \<times> bridge" where
  "parseData e hexStr data s =
     (let msgType = getMsgType hexStr;
          s0 = logger DEBUG (Parsed_msgType msgType) s;
          stateT = stateTopic (cfg e);
          diag = diagnosticsTopic (cfg e)
      in
      if msgType = Msg SEND_NORM then (CONF_ACK_buffer, s0)
      else if msgType = Msg CONF_ACK
      then (CONF_ACK_buffer, (logger DEBUG Confirmation_ACK_received s0)\<lparr>readyToSendData := False\<rparr>)
      else if msgType = Msg MP
      then (CONF_ACK_buffer, decodeHex e data ''MELDEGRUPPEN'' s0)
      else if msgType = Msg SB
      then (CONF_ACK_buffer, (decodeHex e data ''MELDEBEREICHE'' s0)\<lparr>readyToSendData := True\<rparr>)
      else if msgType = Msg SYS_INT_ARMED
      then (let stateToPublish = mapToExternalState ''armed_home'' s0;
                s1 = publishToMQTT e stateT (Text stateToPublish) s0;
                s2 = publishToMQTT e (diag @ ''/state'')
                       (jsonObject
                          [(''state'', Some (JStr stateToPublish)),
                           (''internalState'', Some (JStr ''armed_home'')),
                           (''timestamp'', Some (JStr (toISOString e s1))),
                           (''isVirtualMode'', Some (JBool (stateToPublish = ''armed_night''))),
                           (''virtualType'',
                              Some (if stateToPublish = ''armed_night'' then JStr ''night_mode''
                                    else JNull))]) s1
            in (CONF_ACK_buffer, s2))
      else if msgType = Msg SYS_DISARMED
      then (let s1 = publishToMQTT e stateT (Text ''disarmed'') (resetVirtualModes s0);
                s2 = publishToMQTT e (diag @ ''/state'') (stateRecord e ''disarmed'' [] s1) s1
            in (CONF_ACK_buffer, s2))
      else if msgType = Msg SYS_EXT_ARMED
      then (let s1 = publishToMQTT e stateT (Text ''armed_away'') s0;
                s2 = publishToMQTT e (diag @ ''/state'')
                       (stateRecord e ''armed_away'' [(''type'', Some (JStr ''external''))] s1) s1
            in (CONF_ACK_buffer, s2))
      else if msgType = Msg ALARM
      then (let s1 = publishToMQTT e stateT (Text ''triggered'') s0;
                s2 = publishToMQTT e (diag @ ''/alarm'')
                       (stateRecord e ''triggered'' [(''type'', Some (JStr ''alarm''))] s1) s1
            in (CONF_ACK_buffer, s2))
      else if msgType = Msg INTRUSION
      then (CONF_ACK_buffer,
            publishToMQTT e (diag @ ''/intrusion'')
              (stateRecord e ''triggered'' [(''type'', Some (JStr ''intrusion''))] s0) s0)
      else if msgType = Msg BATTERY_MALFUNCTION
      then (CONF_ACK_buffer,
            publishToMQTT e (diag @ ''/battery'') (stateRecord e ''malfunction'' [] s0) s0)
      else if msgType = Msg POWER_OUTAGE
      then (CONF_ACK_buffer,
            publishToMQTT e (diag @ ''/power'') (stateRecord e ''outage'' [] s0) s0)
      else if msgType = Msg OPTICAL_FLASHER_MALFUNCTION
      then (CONF_ACK_buffer,
            publishToMQTT e (diag @ ''/flasher'') (stateRecord e ''malfunction'' [] s0) s0)
      else if msgType = Msg HORN_1_MALFUNCTION \<or> msgType = Msg HORN_2_MALFUNCTION
      then (let hornNumber = (if msgType = Msg HORN_1_MALFUNCTION then ''1'' else ''2'')
            in (CONF_ACK_buffer,
                publishToMQTT e (diag @ ''/horn'' @ hornNumber)
                  (stateRecord e ''malfunction'' [] s0) s0))
      else if msgType = Msg COM_FAULT
      then (CONF_ACK_buffer,
            publishToMQTT e (diag @ ''/communication'') (stateRecord e ''fault'' [] s0) s0)
      else if msgType = Msg RESTART
      then (let s1 = logger INFO System_restart_detected s0
            in (CONF_ACK_buffer,
                publishToMQTT e (diag @ ''/restart'') (stateRecord e ''restart'' [] s1) s1))
      else if Discover (cfg e)
      then (CONF_ACK_buffer,
            logger DISCOVER (Unknown_Message_Type hexStr) (logger DISCOVER Discovery_Detection s0))
      else (CONF_ACK_buffer, logger WARN (Unknown_Message_Type hexStr) s0))"

definition handleData :: "env \<Rightarrow> nat list \<Rightarrow> bridge \<Rightarrow> bridge" where
  "handleData e data s =
     (if \<not> getConnectionStatus s
      then logger ERROR Attempted_to_handle_data_on_a_closed_socket s
      else
        let hexStr = toStringHex data;
            s1 = logger DEBUG (Processing_hex_string hexStr) s
        in case parseData e hexStr data s1 of
             (sendBack, s2) \<Rightarrow>
               (let s3 = logger DEBUG (Sending_response (toStringHex sendBack)) s2
                in case sendData e sendBack s3 of
                     (Resolved, s4) \<Rightarrow> s4
                   | (Rejected, s4) \<Rightarrow> logger ERROR Error_handling_data s4))"

section \<open>SocketManager: reconnection\<close>

text \<open>
  The first socket is created by \<open>Telenot.setupConnections\<close> with callbacks that log; a
  socket created by the reconnection timer has empty callbacks. A timer is a handle in
  \<open>timers\<close> while it is armed; the stored handle stays in \<open>reconnectTimeout\<close> after it
  has fired.
\<close>

datatype callbacks = TelenotCallbacks | EmptyCallbacks

definition onError :: "callbacks \<Rightarrow> bridge \<Rightarrow> bridge" where
  "onError cb s = (case cb of TelenotCallbacks \<Rightarrow> logger ERROR Socket_error s
                   | EmptyCallbacks \<Rightarrow> s)"

definition onClose :: "callbacks \<Rightarrow> bridge \<Rightarrow> bridge" where
  "onClose cb s = (case cb of TelenotCallbacks \<Rightarrow> logger INFO Socket_connection_closed s
                   | EmptyCallbacks \<Rightarrow> s)"

definition clearTimeout :: "nat option \<Rightarrow> bridge \<Rightarrow> bridge" where
  "clearTimeout h s = (case h of None \<Rightarrow> s | Some t \<Rightarrow> s\<lparr>timers := removeAll t (timers s)\<rparr>)"

definition createConnection :: "bridge \<Rightarrow> bridge" where
  "createConnection s = s\<lparr>socket := True, socketsCreated := socketsCreated s + 1\<rparr>"

definition handleReconnect :: "bridge \<Rightarrow> bridge" where
  "handleReconnect s =
     (if reconnectAttempts s < maxReconnectAttempts s
      then
        let s1 = s\<lparr>reconnectAttempts := reconnectAttempts s + 1\<rparr>;
            s2 = logger INFO
                   (Attempting_to_reconnect (reconnectAttempts s1) (maxReconnectAttempts s1)) s1;
            s3 = (if reconnectTimeout s2 \<noteq> None then clearTimeout (reconnectTimeout s2) s2
                  else s2);
            t = timersCreated s3
        in s3\<lparr>timers := timers s3 @ [t], timersCreated := t + 1, reconnectTimeout := Some t\<rparr>
      else logger ERROR Max_reconnection_attempts_reached s)"

text \<open>What the socket and the timer can make happen.\<close>

datatype socket_event =
    Connect | SocketError callbacks | SocketClose callbacks | SocketTimeout | TimerFires nat

fun socketEvent :: "socket_event \<Rightarrow> bridge \<Rightarrow> bridge" where
  "socketEvent Connect s =
     (logger INFO Connected_to_TCP_converter s)\<lparr>isConnected := True, reconnectAttempts := 0\<rparr>"
| "socketEvent (SocketError cb) s = handleReconnect (onError cb (s\<lparr>isConnected := False\<rparr>))"
| "socketEvent (SocketClose cb) s = handleReconnect (onClose cb (s\<lparr>isConnected := False\<rparr>))"
| "socketEvent SocketTimeout s =
     handleReconnect ((logger WARN Socket_connection_timed_out s)\<lparr>isConnected := False\<rparr>)"
| "socketEvent (TimerFires t) s =
     (if t \<in> set (timers s) then createConnection (s\<lparr>timers := removeAll t (timers s)\<rparr>)
      else s)"

definition socketEvents :: "socket_event list \<Rightarrow> bridge \<Rightarrow> bridge" where
  "socketEvents evs s = fold socketEvent evs s"

definition isConnectionLoss :: "socket_event \<Rightarrow> bool" where
  "isConnectionLoss ev = (case ev of SocketError _ \<Rightarrow> True | SocketClose _ \<Rightarrow> True
                          | SocketTimeout \<Rightarrow> True | _ \<Rightarrow> False)"

text \<open>The state right after the constructors have run and the first socket was created.\<close>

definition initialBridge :: bridge where
  "initialBridge =
     \<lparr>virtualNightMode = False, readyToSendData = False, statesPrevious = Map.empty,
      lastPublishedStates = Map.empty, socket = True, isConnected = False,
      reconnectAttempts = 0, maxReconnectAttempts = 5, reconnectTimeout = None,
      timers = [], timersCreated = 0, socketsCreated = 1,
      written = [], published = [], logged = []\<rparr>"

definition connectedBridge :: bridge where
  "connectedBridge = initialBridge\<lparr>isConnected := True\<rparr>"

section \<open>Example data\<close>

text \<open>The catalog of \<open>config-example/locations/og.mjs\<close>.\<close>

definition og_meldegruppen :: "position list" where
  "og_meldegruppen =
     [\<lparr>hex = ''0x08B'', name = Some ''IM Flur'', name_ha = Some ''Bewegungsmelder'',
       type = Some ''bewegungsmelder'', topic = ''telenot/alarm/og/flur/bewegung'',
       location = Some ''Flur'', inverted = True\<rparr>,
      \<lparr>hex = ''0x088'', name = Some ''MK Fenster Flur OG'', name_ha = Some ''Magnetkontakt Fenster'',
       type = Some ''magnetkontakt'', topic = ''telenot/alarm/og/flur/fenster'',
       location = Some ''Flur'', inverted = True\<rparr>,
      \<lparr>hex = ''0x092'', name = Some ''RM Flur'', name_ha = Some ''Rauchmelder'',
       type = Some ''rauchmelder'', topic = ''telenot/alarm/og/flur/rauchmelder'',
       location = Some ''Flur'', inverted = True\<rparr>]"

text \<open>Positions in the style of the fixtures of \<open>tests/StateManager.test.mjs\<close>.\<close>

definition testSensor :: position where
  "testSensor =
     \<lparr>hex = ''10'', name = Some ''Test Sensor'', name_ha = Some ''Test Sensor'',
      type = Some ''sensor'', topic = ''test/topic'', location = Some ''Test Location'',
      inverted = False\<rparr>"

definition testSensor2 :: position where
  "testSensor2 =
     \<lparr>hex = ''11'', name = Some ''Test Sensor 2'', name_ha = Some ''Test Sensor 2'',
      type = Some ''sensor'', topic = ''test/topic/2'', location = Some ''Test Location'',
      inverted = False\<rparr>"

definition invertedSensor :: position where
  "invertedSensor =
     \<lparr>hex = ''10'', name = Some ''Test Position 1'', name_ha = Some ''Test HA 1'',
      type = Some ''binary'', topic = ''test/topic/1'', location = Some ''Test Location'',
      inverted = True\<rparr>"

definition unknownPosition :: position where
  "unknownPosition =
     \<lparr>hex = ''01'', name = None, name_ha = None, type = None, topic = ''test/topic'',
      location = None, inverted = False\<rparr>"

definition exampleConfig :: config where
  "exampleConfig =
     \<lparr>Discover = False,
      SICHERUNGSBEREICH = \<lparr>offset = 10, positions = []\<rparr>,
      SICHERUNGSBEREICH2 = \<lparr>offset = 10, positions = []\<rparr>,
      MELDEBEREICHE = \<lparr>offset = 10, positions = [invertedSensor]\<rparr>,
      MELDEGRUPPEN = \<lparr>offset = 12, positions = og_meldegruppen\<rparr>,
      stateTopic = ''telenot/alarm/state'',
      diagnosticsTopic = ''telenot/alarm/diagnostics''\<rparr>"

definition exampleEnv :: env where
  "exampleEnv =
     \<lparr>cfg = exampleConfig, publish_ok = (\<lambda>k. True), write_ok = (\<lambda>k. True),
      clock = (\<lambda>k. ''2024-01-01T00:00:00.000Z'')\<rparr>"

definition discoverEnv :: env where
  "discoverEnv = exampleEnv\<lparr>cfg := exampleConfig\<lparr>Discover := True\<rparr>\<rparr>"

text \<open>An outside world in which the very first publish is rejected.\<close>

definition rejectFirstEnv :: env where
  "rejectFirstEnv = exampleEnv\<lparr>publish_ok := (\<lambda>k. k \<noteq> 0)\<rparr>"

text \<open>
  A connection that is lost and never comes back. In \<open>lossTrace\<close> the first socket
  closes, and every socket that a reconnection timer creates fails with an error event
  followed by a close event; after it the attempt counter is at its maximum and the
  timer armed by the last increment is still pending. In \<open>refusedTrace\<close> the first
  socket is refused as well, so every socket fails with an error event followed by a
  close event; after it the counter is at its maximum, the failure has been logged, and
  the timer armed by the last increment is still pending.
\<close>

definition lossTrace :: "socket_event list" where
  "lossTrace =
     [SocketClose TelenotCallbacks, TimerFires 0,
      SocketError EmptyCallbacks, SocketClose EmptyCallbacks, TimerFires 2,
      SocketError EmptyCallbacks, SocketClose EmptyCallbacks]"

definition refusedTrace :: "socket_event list" where
  "refusedTrace =
     [SocketError TelenotCallbacks, SocketClose TelenotCallbacks, TimerFires 1,
      SocketError EmptyCallbacks, SocketClose EmptyCallbacks, TimerFires 3,
      SocketError EmptyCallbacks, SocketClose EmptyCallbacks]"

text \<open>
  Two snapshots of a content area with the two test sensors at bits 16 and 17:
  \<open>seenBridge\<close> is the state after the first snapshot, in which byte 2 is 0.
\<close>

definition testContentConfig :: content_config where
  "testContentConfig = \<lparr>offset = 10, positions = [testSensor, testSensor2]\<rparr>"

definition seenBridge :: bridge where
  "seenBridge = handleStateChange exampleEnv [(2, 0)] ''TEST_CONTENT'' testContentConfig initialBridge"

text \<open>
  Two SB frames that differ in the lowest bit of their third payload byte, which is bit
  16 of the content area; \<open>afterFirstSB\<close> is the state after the first of them has
  been parsed on a connected bridge.
\<close>

definition sbFrameBitSet :: "nat list" where
  "sbFrameBitSet =
     [0x68, 0xab, 0xcd, 0x68, 0x73, 0x02, 0xff, 0x24, 0x00, 0x05, 0x00, 0x02, 0x01, 0x16]"

definition sbFrameBitClear :: "nat list" where
  "sbFrameBitClear =
     [0x68, 0xab, 0xcd, 0x68, 0x73, 0x02, 0xff, 0x24, 0x00, 0x05, 0x00, 0x02, 0x00, 0x16]"

definition afterFirstSB :: bridge where
  "afterFirstSB = snd (parseData exampleEnv (toStringHex sbFrameBitSet) sbFrameBitSet connectedBridge)"

section \<open>The checksum as the specification words it\<close>

text \<open>The byte values of the successive pairs of hex digits of a string.\<close>

fun hexPairValues :: "string \<Rightarrow> nat list" where
  "hexPairValues (a # b # r) = (16 * hexDigitValue a + hexDigitValue b) # hexPairValues r"
| "hexPairValues r = []"

text \<open>
  The sum, modulo 256, of the bytes after the first eight hex characters, as two hex
  digits.
\<close>

definition spec_checksum :: "string \<Rightarrow> string" where
  "spec_checksum message = byteToHex (sum_list (hexPairValues (drop 8 message)) mod 256)"

section \<open>Upper case, for the statement about letter case\<close>

text \<open>
  \<open>toUpperCase\<close> on the letters that have their upper-case partner below code unit 256.
\<close>

definition charToUpperCase :: "char \<Rightarrow> char" where
  "charToUpperCase c = (case map_of (zip lowerLetters upperLetters) c of Some u \<Rightarrow> u | None \<Rightarrow> c)"

definition toUpperCase :: "string \<Rightarrow> string" where
  "toUpperCase str = map charToUpperCase str"

section \<open>Frame conditions\<close>

lemma logger_fields [simp]:
  "virtualNightMode (logger l m s) = virtualNightMode s"
  "readyToSendData (logger l m s) = readyToSendData s"
  "statesPrevious (logger l m s) = statesPrevious s"
  "lastPublishedStates (logger l m s) = lastPublishedStates s"
  "socket (logger l m s) = socket s"
  "isConnected (logger l m s) = isConnected s"
  "reconnectAttempts (logger l m s) = reconnectAttempts s"
  "maxReconnectAttempts (logger l m s) = maxReconnectAttempts s"
  "reconnectTimeout (logger l m s) = reconnectTimeout s"
  "timers (logger l m s) = timers s"
  "timersCreated (logger l m s) = timersCreated s"
  "socketsCreated (logger l m s) = socketsCreated s"
  "written (logger l m s) = written s"
  "published (logger l m s) = published s"
  "logged (logger l m s) = logged s @ [(l, m)]"
  by (simp_all add: logger_def)

lemma sendData_flags:
  "virtualNightMode (snd (sendData e d s)) = virtualNightMode s"
  "readyToSendData (snd (sendData e d s)) = readyToSendData s"
  by (simp_all add: sendData_def Let_def)

lemma createCommandMessage_flags:
  "virtualNightMode (snd (createCommandMessage a b c s)) = virtualNightMode s"
  "readyToSendData (snd (createCommandMessage a b c s)) = readyToSendData s"
  by (simp_all add: createCommandMessage_def Let_def split: sum.splits)

lemma sendCommand_flags:
  "virtualNightMode (snd (sendCommand e c a s)) = virtualNightMode s"
  "readyToSendData (snd (sendCommand e c a s)) = readyToSendData s"
  by (simp_all add: sendCommand_def Let_def split_beta sendData_flags
        split: sum.split promise.split)

lemma armOperation_flags:
  "virtualNightMode (snd (armOperation e a b c act s)) = virtualNightMode s"
  "readyToSendData (snd (armOperation e a b c act s)) = readyToSendData s"
  by (simp_all add: armOperation_def split_beta sendCommand_flags createCommandMessage_flags
        split: sum.split)

section \<open>The night-mode flag after a command\<close>

lemma runAction_night:
  "virtualNightMode (snd (runAction e act s)) =
     (case act of DISARM \<Rightarrow> False | ARM_NIGHT \<Rightarrow> True | _ \<Rightarrow> virtualNightMode s)"
  by (cases act)
     (simp_all add: disarmArea_def intArmArea_def extArmArea_def resetArmArea_def
        armOperation_flags resetVirtualModes_def mapToInternalState_def)

lemma commandMap_ARM_NIGHT: "(commandMap k = Some ARM_NIGHT) = (k = ''ARM_NIGHT'')"
  by (simp add: commandMap_def)

text \<open>
  C10. After any call \<open>handleCommand(c)\<close>, whether it returns or raises, the virtual
  night-mode flag is true if and only if \<open>c\<close> is \<open>ARM_NIGHT\<close>: every other command
  string, handled or not, leaves the flag false.
\<close>

theorem handleCommand_night_mode:
  "virtualNightMode (snd (handleCommand e c s)) = (c = ''ARM_NIGHT'')"
proof (cases "c = ''ARM_NIGHT''")
  case True
  then show ?thesis
    by (simp add: handleCommand_def mapToInternalState_def commandMap_def Let_def
        split_beta runAction_night del: runAction.simps split: sum.split)
next
  case False
  have "virtualNightMode (snd (handleCommand e c s)) = False"
  proof (cases "commandMap c")
    case None
    with False show ?thesis
      by (simp add: handleCommand_def mapToInternalState_def)
  next
    case (Some act)
    with False have "act \<noteq> ARM_NIGHT"
      using commandMap_ARM_NIGHT [of c] by auto
    with Some False show ?thesis
      by (cases act)
         (simp_all add: handleCommand_def mapToInternalState_def Let_def split_beta
            runAction_night del: runAction.simps split: sum.split)
  qed
  with False show ?thesis by simp
qed

theorem handleCommand_night_mode_witness:
  "virtualNightMode (snd (handleCommand exampleEnv ''ARM_NIGHT'' connectedBridge))
   \<and> \<not> virtualNightMode (snd (handleCommand exampleEnv ''ARM_HOME''
            (snd (handleCommand exampleEnv ''ARM_NIGHT'' connectedBridge))))
   \<and> \<not> virtualNightMode (snd (handleCommand exampleEnv ''toString''
            (snd (handleCommand exampleEnv ''ARM_NIGHT'' connectedBridge))))"
  by (simp add: handleCommand_night_mode)

section \<open>The readiness flag\<close>

lemma publishState_ready:
  "readyToSendData (publishState e pos b i j c s) = readyToSendData s"
  by (simp add: publishState_def Let_def split: option.split)

lemma publishChangedBits_ready:
  "readyToSendData (publishChangedBits e nb ob i c ps s) = readyToSendData s"
  by (induction ps arbitrary: s) (simp_all add: Let_def publishState_ready)

lemma processStateChanges_ready:
  "readyToSendData (processStateChanges e nv ov i ps c s) = readyToSendData s"
  by (simp add: processStateChanges_def Let_def publishChangedBits_ready)

lemma publishPositionStates_ready:
  "readyToSendData (publishPositionStates e bm ps c s) = readyToSendData s"
  by (induction ps arbitrary: s) (simp_all add: Let_def publishState_ready split: option.split)

lemma processChangedBytes_ready:
  "readyToSendData (processChangedBytes e prev ps c bm s) = readyToSendData s"
  by (induction e prev ps c bm s rule: processChangedBytes.induct)
     (simp_all add: processStateChanges_ready)

lemma handleStateChange_ready:
  "readyToSendData (handleStateChange e bm c cc s) = readyToSendData s"
  by (simp add: handleStateChange_def Let_def publishPositionStates_ready
        processChangedBytes_ready split: option.split)

lemma decodeHex_ready:
  "readyToSendData (decodeHex e d c s) = readyToSendData s"
  by (simp add: decodeHex_def Let_def handleStateChange_ready split: option.split)

lemma publishToMQTT_ready:
  "readyToSendData (publishToMQTT e t m s) = readyToSendData s"
  by (simp add: publishToMQTT_def Let_def)

lemma replicate_eval: "replicate 4 x = [x, x, x, x]" "replicate 2 x = [x, x]"
  by (simp_all add: eval_nat_numeral)

lemmas classifier_defs = getMsgType_def matchHexStrToMsgType_def testPrefix_def
  testPrefixTo16_def lits_def isHexDigit_def isLineTerminator_def START_TO_MSG_TYPE_def
  objectPrototypeMembers_def replicate_eval

lemma getMsgType_SB_example: "getMsgType ''68abcd687302ff24000500020016'' = Msg SB"
  by (simp add: classifier_defs)

lemma getMsgType_CONF_ACK_example: "getMsgType ''6802026800020216'' = Msg CONF_ACK"
  by (simp add: classifier_defs)

lemma getMsgType_SEND_NORM_example: "getMsgType ''6802026840024216'' = Msg SEND_NORM"
  by (simp add: classifier_defs)

text \<open>
  C8. \<open>parseData\<close> changes the shared flag \<open>readyToSendData\<close> on exactly two frame types:
  an SB frame sets it to true and a CONF_ACK frame sets it to false; a frame of any
  other type, classified or not, leaves it as it was.
\<close>

theorem parseData_readyToSendData:
  "readyToSendData (snd (parseData e hexStr data s)) =
     (if getMsgType hexStr = Msg SB then True
      else if getMsgType hexStr = Msg CONF_ACK then False
      else readyToSendData s)"
  by (simp add: parseData_def Let_def decodeHex_ready publishToMQTT_ready resetVirtualModes_def)

theorem parseData_readyToSendData_witness:
  "readyToSendData (snd (parseData exampleEnv ''68abcd687302ff24000500020016''
       [0x68, 0xab, 0xcd, 0x68, 0x73, 0x02, 0xff, 0x24, 0x00, 0x05, 0x00, 0x02, 0x00, 0x16]
       connectedBridge))
   \<and> \<not> readyToSendData (snd (parseData exampleEnv ''6802026800020216'' CONF_ACK_buffer
           (connectedBridge\<lparr>readyToSendData := True\<rparr>)))
   \<and> readyToSendData (snd (parseData exampleEnv ''6802026840024216''
           [0x68, 0x02, 0x02, 0x68, 0x40, 0x02, 0x42, 0x16]
           (connectedBridge\<lparr>readyToSendData := True\<rparr>)))"
  using getMsgType_SB_example getMsgType_CONF_ACK_example getMsgType_SEND_NORM_example
  by (simp add: parseData_readyToSendData)

section \<open>Letter case in the classification\<close>

text \<open>
  C6. The classification is meant to ignore letter case, and every other pattern accepts
  both cases of its letters; the pattern of the sensor alarm ends in a lower-case \<open>b\<close>
  only and the prefix table holds \<open>682C2C68\<close> in upper case only. So a frame and its
  upper-case form can be classified differently: the prefix \<open>682c2c68\<close> is INVALID and
  its upper-case form is MP; a sensor-alarm frame is ALARM and its upper-case form is
  not.
\<close>

theorem getMsgType_depends_on_case:
  "getMsgType ''682c2c68'' = Msg INVALID
   \<and> getMsgType (toUpperCase ''682c2c68'') = Msg MP
   \<and> getMsgType ''68aaaa687302050201002b'' = Msg ALARM
   \<and> getMsgType (toUpperCase ''68aaaa687302050201002b'') = Msg INVALID"
proof -
  have "toUpperCase ''682c2c68'' = ''682C2C68''"
    and "toUpperCase ''68aaaa687302050201002b'' = ''68AAAA687302050201002B''"
    by (simp_all add: toUpperCase_def charToUpperCase_def lowerLetters_def upperLetters_def)
  then show ?thesis
    by (simp add: classifier_defs)
qed

section \<open>Publishing the state of one position\<close>

text \<open>
  C9. For a position without a name, \<open>publishState\<close> publishes nothing and leaves the
  map of last published states as it is, whatever the bit; all it does is log the two
  lines of a discovery record, and only when discovery is enabled and the computed
  state is not the one last published to the topic.
\<close>

theorem publishState_unnamed:
  assumes "\<not> truthy (name pos)"
  shows "publishState e pos bitValue byteIndex bitIndex contentName s =
           s\<lparr>logged := logged s @
               (if Discover (cfg e)
                   \<and> lastPublishedStates s (topic pos) \<noteq> Some (mapBinaryValue bitValue (inverted pos))
                then [(DISCOVER, Discovery_Detection),
                      (DISCOVER, Discovery_position contentName byteIndex bitIndex (hex pos)
                          (getPreviousBit contentName byteIndex bitIndex s) bitValue)]
                else [])\<rparr>
         \<and> published (publishState e pos bitValue byteIndex bitIndex contentName s) = published s
         \<and> lastPublishedStates (publishState e pos bitValue byteIndex bitIndex contentName s)
             = lastPublishedStates s"
  using assms
  by (simp add: publishState_def Let_def truthy_def logger_def split: option.splits)

theorem publishState_unnamed_witness:
  "\<not> truthy (name unknownPosition)
   \<and> published (publishState discoverEnv unknownPosition (Some CHR ''1'') 0 1 ''TEST_CONTENT''
         initialBridge) = []
   \<and> logged (publishState discoverEnv unknownPosition (Some CHR ''1'') 0 1 ''TEST_CONTENT''
         initialBridge)
       = [(DISCOVER, Discovery_Detection),
          (DISCOVER, Discovery_position ''TEST_CONTENT'' 0 1 ''01'' ''N/A'' (Some CHR ''1''))]"
proof -
  have h: "\<not> truthy (name unknownPosition)"
    by (simp add: truthy_def unknownPosition_def)
  show ?thesis
    using h publishState_unnamed [OF h, of discoverEnv "Some CHR ''1''" 0 1 "''TEST_CONTENT''"
        initialBridge]
    by (simp add: initialBridge_def discoverEnv_def exampleEnv_def exampleConfig_def
        unknownPosition_def mapBinaryValue_def getPreviousBit_def)
qed

lemma publishState_named:
  assumes "name pos = Some n" and "n \<noteq> []"
  shows "publishState e pos b i j c s =
     (let state = mapBinaryValue b (inverted pos) in
      if lastPublishedStates s (topic pos) = Some state then s
      else
        let payload = statePayload e pos n state s;
            s2 = s\<lparr>published := published s @ [(topic pos, payload, True)]\<rparr>
        in if publish_ok e (length (published s))
           then (logger INFO (Published_state_change (topic pos) payload) s2)
                  \<lparr>lastPublishedStates := (lastPublishedStates s)(topic pos \<mapsto> state)\<rparr>
           else logger ERROR (Failed_to_publish (topic pos)) s2)"
  by (simp add: publishState_def Let_def truthy_def assms)

lemma truthyE: "truthy x \<Longrightarrow> \<exists>n. x = Some n \<and> n \<noteq> []"
  by (cases x) (simp_all add: truthy_def)

text \<open>
  C5, as the code has it. For a named position, when the state last published to the
  topic differs from the first computed state and the first publish call succeeds:
  two calls of \<open>publishState\<close> in a row with the same computed state make exactly one
  publish call to the topic, and two calls with different computed states make exactly
  two.
\<close>

theorem publishState_twice:
  assumes "truthy (name pos)"
      and "lastPublishedStates s (topic pos) \<noteq> Some (mapBinaryValue b1 (inverted pos))"
      and "publish_ok e (length (published s))"
  shows "map fst (published (publishState e pos b2 i2 j2 c2 (publishState e pos b1 i1 j1 c1 s)))
         = map fst (published s) @
             (if mapBinaryValue b2 (inverted pos) = mapBinaryValue b1 (inverted pos)
              then [topic pos] else [topic pos, topic pos])"
proof -
  from assms(1) obtain n where n: "name pos = Some n" "n \<noteq> []"
    using truthyE by blast
  show ?thesis
    using assms(2,3) by (simp add: publishState_named [OF n] Let_def)
qed

lemma testSensor_facts:
  "truthy (name testSensor)"
  "name testSensor = Some ''Test Sensor''"
  "topic testSensor = ''test/topic''"
  "mapBinaryValue (Some CHR ''1'') (inverted testSensor) = ''ON''"
  "mapBinaryValue (Some CHR ''0'') (inverted testSensor) = ''OFF''"
  by (simp_all add: testSensor_def truthy_def mapBinaryValue_def)

theorem publishState_twice_witness:
  "truthy (name testSensor)
   \<and> lastPublishedStates initialBridge (topic testSensor)
       \<noteq> Some (mapBinaryValue (Some CHR ''1'') (inverted testSensor))
   \<and> publish_ok exampleEnv (length (published initialBridge))
   \<and> map fst (published
        (publishState exampleEnv testSensor (Some CHR ''1'') 2 0 ''TEST_CONTENT''
          (publishState exampleEnv testSensor (Some CHR ''1'') 2 0 ''TEST_CONTENT'' initialBridge)))
       = [''test/topic'']
   \<and> map fst (published
        (publishState exampleEnv testSensor (Some CHR ''0'') 2 0 ''TEST_CONTENT''
          (publishState exampleEnv testSensor (Some CHR ''1'') 2 0 ''TEST_CONTENT'' initialBridge)))
       = [''test/topic'', ''test/topic'']"
proof -
  have h1: "truthy (name testSensor)" by (rule testSensor_facts)
  have h2: "lastPublishedStates initialBridge (topic testSensor)
              \<noteq> Some (mapBinaryValue (Some CHR ''1'') (inverted testSensor))"
    by (simp add: initialBridge_def)
  have h3: "publish_ok exampleEnv (length (published initialBridge))"
    by (simp add: exampleEnv_def)
  have p: "published initialBridge = []" by (simp add: initialBridge_def)
  show ?thesis
    using h1 h2 h3
      publishState_twice [OF h1 h2 h3, of "Some CHR ''1''" 2 0 "''TEST_CONTENT''" 2 0 "''TEST_CONTENT''"]
      publishState_twice [OF h1 h2 h3, of "Some CHR ''0''" 2 0 "''TEST_CONTENT''" 2 0 "''TEST_CONTENT''"]
    by (simp add: testSensor_facts p)
qed

text \<open>
  As the specification words it, the property fails in both halves. When the first publish is rejected, the same
  state twice is published twice; when the first of two different states is the one
  last published, only the second is published.
\<close>

theorem publishState_twice_counterexample:
  "length (published
      (publishState rejectFirstEnv testSensor (Some CHR ''1'') 2 0 ''TEST_CONTENT''
        (publishState rejectFirstEnv testSensor (Some CHR ''1'') 2 0 ''TEST_CONTENT''
          initialBridge))) = 2
   \<and> mapBinaryValue (Some CHR ''1'') (inverted testSensor)
       \<noteq> mapBinaryValue (Some CHR ''0'') (inverted testSensor)
   \<and> length (published
        (publishState exampleEnv testSensor (Some CHR ''0'') 2 0 ''TEST_CONTENT''
          (publishState exampleEnv testSensor (Some CHR ''1'') 2 0 ''TEST_CONTENT''
            (publishState exampleEnv testSensor (Some CHR ''1'') 2 0 ''TEST_CONTENT''
              initialBridge))))
     = length (published
          (publishState exampleEnv testSensor (Some CHR ''1'') 2 0 ''TEST_CONTENT''
              initialBridge)) + 1"
  by (simp add: publishState_named [OF testSensor_facts(2)] testSensor_facts Let_def
      initialBridge_def rejectFirstEnv_def exampleEnv_def)

section \<open>Reconnection of the socket\<close>

lemma handleReconnect_at_cap:
  assumes "maxReconnectAttempts s \<le> reconnectAttempts s"
  shows "handleReconnect s = logger ERROR Max_reconnection_attempts_reached s"
  using assms by (simp add: handleReconnect_def)

lemma socketEvents_Cons: "socketEvents (ev # evs) s = socketEvents evs (socketEvent ev s)"
  by (simp add: socketEvents_def)

lemma event_at_cap:
  assumes "maxReconnectAttempts s \<le> reconnectAttempts s" and "ev \<noteq> Connect"
  shows "reconnectAttempts (socketEvent ev s) = reconnectAttempts s"
    and "maxReconnectAttempts (socketEvent ev s) = maxReconnectAttempts s"
    and "timersCreated (socketEvent ev s) = timersCreated s"
    and "socketsCreated (socketEvent ev s) + length (timers (socketEvent ev s))
           \<le> socketsCreated s + length (timers s)"
    and "count_list (logged (socketEvent ev s)) (ERROR, Max_reconnection_attempts_reached)
         = count_list (logged s) (ERROR, Max_reconnection_attempts_reached)
           + (if isConnectionLoss ev then 1 else 0)"
proof -
  show "reconnectAttempts (socketEvent ev s) = reconnectAttempts s"
    using assms
    by (cases ev)
       (simp_all add: handleReconnect_at_cap onError_def onClose_def createConnection_def
          split: callbacks.split)
  show "maxReconnectAttempts (socketEvent ev s) = maxReconnectAttempts s"
    using assms
    by (cases ev)
       (simp_all add: handleReconnect_at_cap onError_def onClose_def createConnection_def
          split: callbacks.split)
  show "timersCreated (socketEvent ev s) = timersCreated s"
    using assms
    by (cases ev)
       (simp_all add: handleReconnect_at_cap onError_def onClose_def createConnection_def
          split: callbacks.split)
  show "socketsCreated (socketEvent ev s) + length (timers (socketEvent ev s))
           \<le> socketsCreated s + length (timers s)"
  proof (cases ev)
    case (TimerFires t)
    have "t \<in> set (timers s) \<Longrightarrow> length (removeAll t (timers s)) < length (timers s)"
      by (rule length_removeAll_less)
    then show ?thesis
      using TimerFires by (auto simp add: createConnection_def)
  qed (use assms in \<open>simp_all add: handleReconnect_at_cap onError_def onClose_def
          split: callbacks.split\<close>)
  show "count_list (logged (socketEvent ev s)) (ERROR, Max_reconnection_attempts_reached)
         = count_list (logged s) (ERROR, Max_reconnection_attempts_reached)
           + (if isConnectionLoss ev then 1 else 0)"
    using assms
    by (cases ev)
       (simp_all add: handleReconnect_at_cap onError_def onClose_def createConnection_def
          isConnectionLoss_def split: callbacks.split)
qed

lemma events_at_cap:
  assumes "maxReconnectAttempts s \<le> reconnectAttempts s" and "Connect \<notin> set evs"
  shows "reconnectAttempts (socketEvents evs s) = reconnectAttempts s
       \<and> maxReconnectAttempts (socketEvents evs s) = maxReconnectAttempts s
       \<and> timersCreated (socketEvents evs s) = timersCreated s
       \<and> socketsCreated (socketEvents evs s) + length (timers (socketEvents evs s))
           \<le> socketsCreated s + length (timers s)
       \<and> count_list (logged (socketEvents evs s)) (ERROR, Max_reconnection_attempts_reached)
           = count_list (logged s) (ERROR, Max_reconnection_attempts_reached)
             + length (filter isConnectionLoss evs)"
  using assms
proof (induction evs arbitrary: s)
  case Nil
  then show ?case by (simp add: socketEvents_def)
next
  case (Cons ev evs)
  have ne: "ev \<noteq> Connect" using Cons.prems(2) by auto
  note step = event_at_cap [OF Cons.prems(1) ne]
  have cap: "maxReconnectAttempts (socketEvent ev s) \<le> reconnectAttempts (socketEvent ev s)"
    using Cons.prems(1) step(1,2) by simp
  have rest: "Connect \<notin> set evs" using Cons.prems(2) by simp
  show ?case
    using Cons.IH [OF cap rest] step by (simp add: socketEvents_Cons)
qed

text \<open>
  At most one timer is armed at any time, and it is the one whose handle is stored in
  \<open>reconnectTimeout\<close>: \<open>handleReconnect\<close> clears the stored handle before it arms a
  new timer.
\<close>

lemma pending_timer_step:
  assumes "\<forall>t \<in> set (timers s). reconnectTimeout s = Some t" and "distinct (timers s)"
  shows "(\<forall>t \<in> set (timers (socketEvent ev s)). reconnectTimeout (socketEvent ev s) = Some t)
         \<and> distinct (timers (socketEvent ev s))"
proof -
  have hr: "\<And>u :: bridge. (\<forall>t \<in> set (timers u). reconnectTimeout u = Some t) \<Longrightarrow> distinct (timers u)
            \<Longrightarrow> (\<forall>t \<in> set (timers (handleReconnect u)). reconnectTimeout (handleReconnect u) = Some t)
                \<and> distinct (timers (handleReconnect u))"
  proof -
    fix u :: bridge assume a: "\<forall>t \<in> set (timers u). reconnectTimeout u = Some t" and d: "distinct (timers u)"
    show "(\<forall>t \<in> set (timers (handleReconnect u)). reconnectTimeout (handleReconnect u) = Some t)
                \<and> distinct (timers (handleReconnect u))"
    proof (cases "reconnectTimeout u")
      case None
      with a have "timers u = []" by (cases "timers u") auto
      with None a d show ?thesis
        by (simp add: handleReconnect_def Let_def clearTimeout_def)
    next
      case (Some h)
      with a have "removeAll h (timers u) = []"
        by (auto simp add: removeAll_id filter_empty_conv removeAll_filter_not_eq)
      with Some a d show ?thesis
        by (simp add: handleReconnect_def Let_def clearTimeout_def)
    qed
  qed
  show ?thesis
  proof (cases ev)
    case Connect
    with assms show ?thesis by simp
  next
    case (SocketError cb)
    have "(\<forall>t \<in> set (timers (onError cb (s\<lparr>isConnected := False\<rparr>))).
              reconnectTimeout (onError cb (s\<lparr>isConnected := False\<rparr>)) = Some t)"
         "distinct (timers (onError cb (s\<lparr>isConnected := False\<rparr>)))"
      using assms by (simp_all add: onError_def split: callbacks.split)
    from hr [OF this] show ?thesis by (simp add: SocketError)
  next
    case (SocketClose cb)
    have "(\<forall>t \<in> set (timers (onClose cb (s\<lparr>isConnected := False\<rparr>))).
              reconnectTimeout (onClose cb (s\<lparr>isConnected := False\<rparr>)) = Some t)"
         "distinct (timers (onClose cb (s\<lparr>isConnected := False\<rparr>)))"
      using assms by (simp_all add: onClose_def split: callbacks.split)
    from hr [OF this] show ?thesis by (simp add: SocketClose)
  next
    case SocketTimeout
    have "(\<forall>t \<in> set (timers ((logger WARN Socket_connection_timed_out s)\<lparr>isConnected := False\<rparr>)).
              reconnectTimeout ((logger WARN Socket_connection_timed_out s)\<lparr>isConnected := False\<rparr>)
                = Some t)"
         "distinct (timers ((logger WARN Socket_connection_timed_out s)\<lparr>isConnected := False\<rparr>))"
      using assms by simp_all
    from hr [OF this] show ?thesis by (simp add: SocketTimeout)
  next
    case (TimerFires t)
    have same: "\<And>a b. a \<in> set (timers s) \<Longrightarrow> b \<in> set (timers s) \<Longrightarrow> a = b"
    proof -
      fix a b assume "a \<in> set (timers s)" and "b \<in> set (timers s)"
      with assms(1) have "reconnectTimeout s = Some a" and "reconnectTimeout s = Some b"
        by blast+
      then show "a = b" by simp
    qed
    from TimerFires assms same show ?thesis
      by (auto simp add: createConnection_def distinct_removeAll)
  qed
qed

lemma pending_timer_invariant:
  assumes "\<forall>t \<in> set (timers s). reconnectTimeout s = Some t" and "distinct (timers s)"
  shows "(\<forall>t \<in> set (timers (socketEvents evs s)). reconnectTimeout (socketEvents evs s) = Some t)
         \<and> distinct (timers (socketEvents evs s))"
  using assms
proof (induction evs arbitrary: s)
  case Nil
  then show ?case by (simp add: socketEvents_def)
next
  case (Cons ev evs)
  from pending_timer_step [OF Cons.prems, of ev]
  have "\<forall>t \<in> set (timers (socketEvent ev s)). reconnectTimeout (socketEvent ev s) = Some t"
    and "distinct (timers (socketEvent ev s))" by simp_all
  from Cons.IH [OF this] show ?case by (simp add: socketEvents_Cons)
qed

lemma at_most_one_pending_timer:
  "length (timers (socketEvents evs initialBridge)) \<le> 1"
proof -
  let ?s = "socketEvents evs initialBridge"
  have inv: "\<forall>t \<in> set (timers ?s). reconnectTimeout ?s = Some t" "distinct (timers ?s)"
    using pending_timer_invariant [of initialBridge evs] by (simp_all add: initialBridge_def)
  show ?thesis
  proof (cases "timers ?s")
    case Nil
    then show ?thesis by simp
  next
    case (Cons a r)
    show ?thesis
    proof (cases r)
      case Nil
      with Cons show ?thesis by simp
    next
      case (Cons b r')
      with \<open>timers ?s = a # r\<close> have tm: "timers ?s = a # b # r'" by simp
      have "a = b" using inv(1) unfolding tm by auto
      with Cons \<open>timers ?s = a # r\<close> inv(2) show ?thesis by simp
    qed
  qed
qed

lemmas reconnect_defs = socketEvents_def initialBridge_def handleReconnect_def Let_def
  logger_def onError_def onClose_def clearTimeout_def createConnection_def

lemma lossTrace_reaches_cap:
  "reconnectAttempts (socketEvents lossTrace initialBridge) = 5"
  "maxReconnectAttempts (socketEvents lossTrace initialBridge) = 5"
  "timers (socketEvents lossTrace initialBridge) = [4]"
  "count_list (logged (socketEvents lossTrace initialBridge))
     (ERROR, Max_reconnection_attempts_reached) = 0"
  by (simp_all add: lossTrace_def reconnect_defs)

lemma lossTrace_sockets: "socketsCreated (socketEvents lossTrace initialBridge) = 3"
  by (simp add: lossTrace_def reconnect_defs)

text \<open>
  C7, as the code has it. Take any state that the socket manager can reach in which the
  attempt counter has reached \<open>maxReconnectAttempts\<close> (5 for the socket), and any further
  events of the sockets and timers among which no connection succeeds. No further
  reconnection is scheduled: no timer is armed and the counter stays where it is. Only a
  timer that is still pending creates a socket, and at most one is pending, the one armed
  by the last increment, so at most one further connection attempt is made. The failure
  \<open>Max reconnection attempts reached\<close> is logged once for every further connection-loss
  event (error, close or timeout), so after \<open>n\<close> of them it has been logged \<open>n\<close> more
  times.
\<close>

theorem reconnect_after_cap:
  assumes "s = socketEvents pre initialBridge"
      and "maxReconnectAttempts s \<le> reconnectAttempts s"
      and "Connect \<notin> set evs"
  shows "timersCreated (socketEvents evs s) = timersCreated s
       \<and> reconnectAttempts (socketEvents evs s) = reconnectAttempts s
       \<and> socketsCreated (socketEvents evs s) + length (timers (socketEvents evs s))
           \<le> socketsCreated s + length (timers s)
       \<and> socketsCreated (socketEvents evs s) \<le> socketsCreated s + 1
       \<and> count_list (logged (socketEvents evs s)) (ERROR, Max_reconnection_attempts_reached)
           = count_list (logged s) (ERROR, Max_reconnection_attempts_reached)
             + length (filter isConnectionLoss evs)"
proof -
  have one: "length (timers s) \<le> 1"
    unfolding assms(1) by (rule at_most_one_pending_timer)
  from events_at_cap [OF assms(2,3)] one show ?thesis by simp
qed

theorem reconnect_after_cap_witness:
  "maxReconnectAttempts (socketEvents lossTrace initialBridge)
     \<le> reconnectAttempts (socketEvents lossTrace initialBridge)
   \<and> Connect \<notin> set [TimerFires 4, SocketError EmptyCallbacks, SocketClose EmptyCallbacks,
                     SocketTimeout]
   \<and> timersCreated (socketEvents
         [TimerFires 4, SocketError EmptyCallbacks, SocketClose EmptyCallbacks, SocketTimeout]
         (socketEvents lossTrace initialBridge))
       = timersCreated (socketEvents lossTrace initialBridge)
   \<and> socketsCreated (socketEvents
         [TimerFires 4, SocketError EmptyCallbacks, SocketClose EmptyCallbacks, SocketTimeout]
         (socketEvents lossTrace initialBridge)) \<le> 3 + 1
   \<and> count_list (logged (socketEvents
         [TimerFires 4, SocketError EmptyCallbacks, SocketClose EmptyCallbacks, SocketTimeout]
         (socketEvents lossTrace initialBridge)))
        (ERROR, Max_reconnection_attempts_reached) = 3"
proof -
  have h2: "maxReconnectAttempts (socketEvents lossTrace initialBridge)
              \<le> reconnectAttempts (socketEvents lossTrace initialBridge)"
    by (simp add: lossTrace_reaches_cap)
  have h3: "Connect \<notin> set [TimerFires 4, SocketError EmptyCallbacks, SocketClose EmptyCallbacks,
                     SocketTimeout]"
    by simp
  show ?thesis
    using h2 h3 reconnect_after_cap [OF refl h2 h3]
    by (simp add: lossTrace_reaches_cap lossTrace_sockets isConnectionLoss_def)
qed

text \<open>
  As the specification words it, the property fails. When the first connection is
  refused and the connection never comes back, every socket fails with an error event
  and a close event, so the counter reaches 5 with the third socket and the failure is
  logged for the first time. The timer armed by the fifth increment is still pending: it
  fires after the failure was logged and creates a fourth socket, and the two events of
  that socket log the failure a second and a third time.
\<close>

theorem reconnect_after_cap_counterexample:
  "reconnectAttempts (socketEvents refusedTrace initialBridge) = maxReconnectAttempts initialBridge
   \<and> count_list (logged (socketEvents refusedTrace initialBridge))
        (ERROR, Max_reconnection_attempts_reached) = 1
   \<and> socketsCreated (socketEvents refusedTrace initialBridge) = 3
   \<and> socketsCreated (socketEvents (refusedTrace @ [TimerFires 4]) initialBridge) = 4
   \<and> count_list (logged (socketEvents
          (refusedTrace @ [TimerFires 4, SocketError EmptyCallbacks, SocketClose EmptyCallbacks])
          initialBridge))
        (ERROR, Max_reconnection_attempts_reached) = 3"
  by (simp add: refusedTrace_def reconnect_defs)

section \<open>The command encoder\<close>

lemmas encoder_defs = createCommandMessage_def calculateChecksum_def COMMAND_SB_STATE_ON_def
  numberToString16_def toString16.simps parseInt16_def isWhiteSpace_def isHexDigit_def
  hexDigitValue_def js_add_def sliceLast2_def isLineTerminator_def

lemma createCommandMessage_frame_cases:
  assumes "address = 1 \<or> address = 2 \<or> address = 3 \<or> address = 4
           \<or> address = 5 \<or> address = 6 \<or> address = 7 \<or> address = 8"
      and "(baseHex, commandHex) = (1320, ''E1'') \<or> (baseHex, commandHex) = (1321, ''62'')
           \<or> (baseHex, commandHex) = (1322, ''61'') \<or> (baseHex, commandHex) = (1323, ''52'')"
  shows "createCommandMessage address baseHex commandHex s =
           (Inr (''680909687301050200'' @ (CHR ''0'' # toString16 (nat (baseHex + address * 8)))
                 @ ''02'' @ commandHex
                 @ spec_checksum (''680909687301050200''
                      @ (CHR ''0'' # toString16 (nat (baseHex + address * 8))) @ ''02'' @ commandHex)
                 @ ''16''), s)
         \<and> length (toString16 (nat (baseHex + address * 8))) = 3
         \<and> parseInt16 (CHR ''0'' # toString16 (nat (baseHex + address * 8)))
             = Some (baseHex + address * 8)"
  using assms
  by (elim disjE; simp add: encoder_defs spec_checksum_def byteToHex_def)

text \<open>
  C1, as the code has it. For every area address from 1 to 8 and each of the four
  operations (disarm 1320 / E1, arm internal 1321 / 62, arm external 1322 / 61, reset
  1323 / 52), \<open>createCommandMessage\<close> returns, without touching the state, the frame made
  of the nine bytes \<open>680909687301050200\<close>, the two-byte address field (a \<open>0\<close> and the
  three lower-case hex digits of base + 8 * address), \<open>02\<close>, the command code, the
  checksum as two hex digits (the sum modulo 256 of the bytes after the first eight hex
  characters; the checksum of the empty message is \<open>00\<close>) and the terminator \<open>16\<close>.
\<close>

theorem createCommandMessage_frame:
  assumes "1 \<le> address" and "address \<le> 8"
      and "(baseHex, commandHex) \<in> {(1320, ''E1''), (1321, ''62''), (1322, ''61''), (1323, ''52'')}"
  shows "createCommandMessage address baseHex commandHex s =
           (Inr (''680909687301050200'' @ (CHR ''0'' # toString16 (nat (baseHex + address * 8)))
                 @ ''02'' @ commandHex
                 @ spec_checksum (''680909687301050200''
                      @ (CHR ''0'' # toString16 (nat (baseHex + address * 8))) @ ''02'' @ commandHex)
                 @ ''16''), s)
         \<and> length (toString16 (nat (baseHex + address * 8))) = 3
         \<and> parseInt16 (CHR ''0'' # toString16 (nat (baseHex + address * 8)))
             = Some (baseHex + address * 8)
         \<and> calculateChecksum [] = Inr ''00''"
proof -
  have a: "address = 1 \<or> address = 2 \<or> address = 3 \<or> address = 4
           \<or> address = 5 \<or> address = 6 \<or> address = 7 \<or> address = 8"
    using assms(1,2) by arith
  have p: "(baseHex, commandHex) = (1320, ''E1'') \<or> (baseHex, commandHex) = (1321, ''62'')
           \<or> (baseHex, commandHex) = (1322, ''61'') \<or> (baseHex, commandHex) = (1323, ''52'')"
    using assms(3) by blast
  show ?thesis
    using createCommandMessage_frame_cases [OF a p, of s]
    by (simp add: calculateChecksum_def)
qed

theorem createCommandMessage_frame_witness:
  "(1::int) \<le> 8 \<and> (8::int) \<le> 8
   \<and> (1322, ''61'') \<in> {(1320::int, ''E1''), (1321, ''62''), (1322, ''61''), (1323, ''52'')}
   \<and> createCommandMessage 8 1322 ''61'' initialBridge
       = (Inr ''680909687301050200056a02614d16'', initialBridge)"
proof -
  have h1: "(1::int) \<le> 8" and h2: "(8::int) \<le> 8" by simp_all
  have h3: "(1322, ''61'') \<in> {(1320::int, ''E1''), (1321, ''62''), (1322, ''61''), (1323, ''52'')}"
    by simp
  show ?thesis
    using h1 h3 createCommandMessage_frame [OF h1 h2 h3, of initialBridge]
    by (simp add: toString16.simps spec_checksum_def byteToHex_def hexDigitValue_def)
qed

text \<open>
  The specification has a single address byte; but base + 8 * address is above 255. At
  address 1 for disarm the frame has fifteen bytes, the byte after the nine-byte constant
  is \<open>05\<close> and not the value 1328, and the byte after it is \<open>30\<close> and not \<open>02\<close>. And
  it is the empty message whose checksum is \<open>00\<close>: a message of eight characters has an
  empty remainder, and its checksum is a \<open>TypeError\<close>.
\<close>

theorem createCommandMessage_address_byte_counterexample:
  "fst (createCommandMessage 1 1320 ''E1'' initialBridge) = Inr ''680909687301050200053002E19316''
   \<and> length ''680909687301050200053002E19316'' \<noteq> 2 * (9 + 1 + 1 + 1 + 1 + 1)
   \<and> parseInt16 (take 2 (drop 18 ''680909687301050200053002E19316'')) = Some 5
   \<and> (5::int) \<noteq> 1320 + 1 * 8
   \<and> take 2 (drop 20 ''680909687301050200053002E19316'') \<noteq> ''02''
   \<and> drop 8 ''12345678'' = []
   \<and> calculateChecksum ''12345678'' = Inl TypeError"
  by (simp add: encoder_defs)

text \<open>
  C2. For an address outside 1 to 8 the encoder is documented to raise and the sender to
  refuse an invalid command. The encoder returns the string \<open>error\<close> instead, which the
  sender takes for a command: \<open>disarmArea(0)\<close> on a connected socket writes the three
  bytes \<open>0e 00 00\<close>.
\<close>

theorem invalid_address_is_sent:
  "fst (createCommandMessage 0 1320 ''E1'' connectedBridge) = Inr ''error''
   \<and> fst (createCommandMessage 9 1320 ''E1'' connectedBridge) = Inr ''error''
   \<and> written connectedBridge = []
   \<and> written (snd (disarmArea exampleEnv 0 connectedBridge)) = [[14, 0, 0]]"
  by (simp add: disarmArea_def armOperation_def createCommandMessage_def sendCommand_def
      getConnectionStatus_def hexToBytes_def parseInt16_def isWhiteSpace_def isHexDigit_def
      hexDigitValue_def isLineTerminator_def Buffer_from_def sendData_def Let_def
      connectedBridge_def initialBridge_def logger_def exampleEnv_def split: sum.split)

section \<open>Bits of a byte\<close>

lemma toString2_bits:
  "k < length (toString2 n) \<Longrightarrow>
     rev (toString2 n) ! k = (if bit n k then CHR ''1'' else CHR ''0'')"
proof (induction n arbitrary: k rule: toString2.induct)
  case (1 n)
  show ?case
  proof (cases "n < 2")
    case True
    then have "n = 0 \<or> n = 1" by arith
    then show ?thesis using 1(2) by (auto simp add: toString2.simps [of n] bit_0)
  next
    case False
    have eq: "toString2 n = toString2 (n div 2) @ [''01'' ! (n mod 2)]"
      using False by (simp add: toString2.simps [of n])
    show ?thesis
    proof (cases k)
      case 0
      have "n mod 2 = 0 \<or> n mod 2 = 1" by arith
      then show ?thesis using 0 by (auto simp add: eq bit_0 odd_iff_mod_2_eq_one)
    next
      case (Suc k')
      with 1(2) have "k' < length (toString2 (n div 2))" by (simp add: eq)
      from 1(1) [OF False this] show ?thesis
        using Suc by (simp add: eq bit_Suc)
    qed
  qed
qed

lemma toString2_bound: "n < 2 ^ length (toString2 n)"
proof (induction n rule: toString2.induct)
  case (1 n)
  show ?case
  proof (cases "n < 2")
    case True
    then show ?thesis by (simp add: toString2.simps [of n])
  next
    case False
    have eq: "toString2 n = toString2 (n div 2) @ [''01'' ! (n mod 2)]"
      using False by (simp add: toString2.simps [of n])
    from 1 [OF False] have "n div 2 < 2 ^ length (toString2 (n div 2))" .
    then have "n < 2 * 2 ^ length (toString2 (n div 2))" by arith
    then show ?thesis by (simp add: eq)
  qed
qed

lemma charAt_reverseBinary:
  assumes "k < 8"
  shows "charAt (reverseBinary n) k = Some (if bit n k then CHR ''1'' else CHR ''0'')"
proof -
  let ?t = "toString2 n"
  have len: "k < length (reverseBinary n)"
    using assms by (simp add: reverseBinary_def padStart8_def)
  have rb: "reverseBinary n = rev ?t @ replicate (8 - length ?t) CHR ''0''"
    by (simp add: reverseBinary_def padStart8_def)
  show ?thesis
  proof (cases "k < length ?t")
    case True
    then show ?thesis
      using len by (simp add: charAt_def rb nth_append toString2_bits)
  next
    case False
    then have "2 ^ length ?t \<le> (2::nat) ^ k" by (simp add: power_increasing)
    with toString2_bound [of n] have "n < 2 ^ k" by arith
    then have "\<not> bit n k" by (simp add: bit_iff_odd)
    then show ?thesis
      using False len assms by (simp add: charAt_def rb nth_append)
  qed
qed

lemma publishState_statesPrevious:
  "statesPrevious (publishState e pos b i j c s) = statesPrevious s"
  by (simp add: publishState_def Let_def split: option.split)

lemma publishChangedBits_foldl:
  "publishChangedBits e nb ob i c ps s =
     foldl (\<lambda>st pos. publishState e pos (charAt nb (bitIndexOf pos)) i (bitIndexOf pos) c st) s
       [pos \<leftarrow> ps. charAt nb (bitIndexOf pos) \<noteq> charAt ob (bitIndexOf pos)]"
  by (induction ps arbitrary: s) (simp_all add: Let_def)

lemma foldl_publishState_statesPrevious:
  "statesPrevious (foldl (\<lambda>st pos. publishState e pos (f pos) i (g pos) c st) s ps)
     = statesPrevious s"
  by (induction ps arbitrary: s) (simp_all add: publishState_statesPrevious)

lemma processChangedBytes_append:
  "processChangedBytes e prev ps c (xs @ ys) s
     = processChangedBytes e prev ps c ys (processChangedBytes e prev ps c xs s)"
  by (induction e prev ps c xs s rule: processChangedBytes.induct) simp_all

lemma processChangedBytes_unchanged:
  assumes "\<forall>(i, v) \<in> set bm. map_of prev i = Some v"
  shows "processChangedBytes e prev ps c bm s = s"
  using assms
  by (induction e prev ps c bm s rule: processChangedBytes.induct) simp_all

lemma processChangedBytes_one_byte:
  assumes "distinct (map fst bm)"
      and "(i0, newByte) \<in> set bm"
      and "map_of prev i0 \<noteq> Some newByte"
      and "\<forall>(i, v) \<in> set bm. i \<noteq> i0 \<longrightarrow> map_of prev i = Some v"
  shows "processChangedBytes e prev ps c bm s
         = processStateChanges e newByte (case map_of prev i0 of None \<Rightarrow> 0 | Some v \<Rightarrow> v)
             i0 ps c s"
proof -
  from assms(2) obtain xs ys where split: "bm = xs @ (i0, newByte) # ys"
    by (auto simp add: in_set_conv_decomp)
  from assms(1) have nx: "i0 \<notin> fst ` set xs" and ny: "i0 \<notin> fst ` set ys"
    by (auto simp add: split)
  have ux: "\<forall>(i, v) \<in> set xs. map_of prev i = Some v"
    using assms(4) nx by (force simp add: split)
  have uy: "\<forall>(i, v) \<in> set ys. map_of prev i = Some v"
    using assms(4) ny by (force simp add: split)
  show ?thesis
    using assms(3)
    by (simp add: split processChangedBytes_append processChangedBytes_unchanged [OF ux]
        processChangedBytes_unchanged [OF uy])
qed

lemma bitIndexOf_less: "bitIndexOf pos < 8"
  by (simp add: bitIndexOf_def split: option.split)

lemma charAt_bitIndexOf:
  "charAt (reverseBinary n) (bitIndexOf pos)
     = Some (if bit n (bitIndexOf pos) then CHR ''1'' else CHR ''0'')"
  by (rule charAt_reverseBinary [OF bitIndexOf_less])

lemma bit_char_neq:
  "((if a then CHR ''1'' else CHR ''0'') \<noteq> (if b then CHR ''1'' else CHR ''0'')) = (a \<noteq> b)"
  by simp

lemma processStateChanges_bits:
  "processStateChanges e newByte oldByte i0 ps c s =
     foldl (\<lambda>st pos. publishState e pos
               (Some (if bit newByte (bitIndexOf pos) then CHR ''1'' else CHR ''0''))
               i0 (bitIndexOf pos) c st) s
       [pos \<leftarrow> ps. relevantPosition i0 pos
                    \<and> bit newByte (bitIndexOf pos) \<noteq> bit oldByte (bitIndexOf pos)]"
  by (simp add: processStateChanges_def Let_def publishChangedBits_foldl charAt_bitIndexOf
      bit_char_neq)

lemma handleStateChange_one_byte:
  assumes "statesPrevious s contentName = Some prevMap"
      and "distinct (map fst bm)"
      and "(i0, newByte) \<in> set bm"
      and "map_of prevMap i0 \<noteq> Some newByte"
      and "\<forall>(i, v) \<in> set bm. i \<noteq> i0 \<longrightarrow> map_of prevMap i = Some v"
  shows "handleStateChange e bm contentName cc s =
           (foldl (\<lambda>st pos. publishState e pos
                     (Some (if bit newByte (bitIndexOf pos) then CHR ''1'' else CHR ''0''))
                     i0 (bitIndexOf pos) contentName st) s
              [pos \<leftarrow> positions cc.
                 relevantPosition i0 pos
                 \<and> bit newByte (bitIndexOf pos)
                     \<noteq> bit (case map_of prevMap i0 of None \<Rightarrow> 0 | Some v \<Rightarrow> v) (bitIndexOf pos)])
           \<lparr>statesPrevious := (statesPrevious s)(contentName \<mapsto> bm)\<rparr>"
  by (simp add: handleStateChange_def assms(1) Let_def
      processChangedBytes_one_byte [OF assms(2-5)] processStateChanges_bits
      foldl_publishState_statesPrevious)

section \<open>One changed byte\<close>

lemma relevantPosition_2:
  "relevantPosition 2 pos
     = (case parseInt16 (hex pos) of None \<Rightarrow> False | Some k \<Rightarrow> 16 \<le> k \<and> k < 24)"
  by (simp add: relevantPosition_def split: option.split)

lemma publishState_published:
  "\<exists>extra. published (publishState e pos b i j c s) = published s @ extra
           \<and> (\<forall>x \<in> set extra. fst x = topic pos)"
  by (simp add: publishState_def Let_def split: option.split)

lemma foldl_publishState_published:
  "\<exists>extra. published (foldl (\<lambda>st pos. publishState e pos (f pos) i (g pos) c st) s ps)
             = published s @ extra
           \<and> (\<forall>x \<in> set extra. \<exists>pos \<in> set ps. fst x = topic pos)"
proof (induction ps arbitrary: s)
  case Nil
  then show ?case by simp
next
  case (Cons p ps)
  obtain ex1 where ex1: "published (publishState e p (f p) i (g p) c s) = published s @ ex1"
     "\<forall>x \<in> set ex1. fst x = topic p"
    using publishState_published by blast
  obtain ex2 where ex2:
     "published (foldl (\<lambda>st pos. publishState e pos (f pos) i (g pos) c st)
        (publishState e p (f p) i (g p) c s) ps)
      = published (publishState e p (f p) i (g p) c s) @ ex2"
     "\<forall>x \<in> set ex2. \<exists>pos \<in> set ps. fst x = topic pos"
    using Cons.IH by blast
  show ?case
    by (rule exI [of _ "ex1 @ ex2"]) (use ex1 ex2 in auto)
qed

text \<open>
  C4, as the code has it. When \<open>handleStateChange\<close> receives a byte map for a content
  area already seen that differs from the previous snapshot only at byte index 2, exactly
  the positions whose bit address lies in [16, 24) are re-evaluated, and \<open>publishState\<close>
  is called, in catalog order, for exactly those of them whose own bit differs between
  the old and the new byte; every new publish goes to the topic of such a position, so
  a position whose bit lies in an unchanged byte is never re-emitted.
\<close>

theorem handleStateChange_byte_2:
  assumes "statesPrevious s contentName = Some prevMap"
      and "distinct (map fst bm)"
      and "(2, newByte) \<in> set bm"
      and "map_of prevMap 2 = Some oldByte"
      and "newByte \<noteq> oldByte"
      and "\<forall>(i, v) \<in> set bm. i \<noteq> 2 \<longrightarrow> map_of prevMap i = Some v"
  shows "handleStateChange e bm contentName cc s =
           (foldl (\<lambda>st pos. publishState e pos
                     (Some (if bit newByte (bitIndexOf pos) then CHR ''1'' else CHR ''0''))
                     2 (bitIndexOf pos) contentName st) s
              [pos \<leftarrow> positions cc.
                 (case parseInt16 (hex pos) of None \<Rightarrow> False | Some k \<Rightarrow> 16 \<le> k \<and> k < 24)
                 \<and> bit newByte (bitIndexOf pos) \<noteq> bit oldByte (bitIndexOf pos)])
           \<lparr>statesPrevious := (statesPrevious s)(contentName \<mapsto> bm)\<rparr>
         \<and> (\<exists>extra. published (handleStateChange e bm contentName cc s) = published s @ extra
              \<and> (\<forall>x \<in> set extra. \<exists>pos \<in> set (positions cc). fst x = topic pos
                    \<and> (case parseInt16 (hex pos) of None \<Rightarrow> False | Some k \<Rightarrow> 16 \<le> k \<and> k < 24)
                    \<and> bit newByte (bitIndexOf pos) \<noteq> bit oldByte (bitIndexOf pos)))"
proof -
  have neq: "map_of prevMap 2 \<noteq> Some newByte"
    using assms(4,5) by simp
  let ?ps = "[pos \<leftarrow> positions cc.
                 (case parseInt16 (hex pos) of None \<Rightarrow> False | Some k \<Rightarrow> 16 \<le> k \<and> k < 24)
                 \<and> bit newByte (bitIndexOf pos) \<noteq> bit oldByte (bitIndexOf pos)]"
  have eq: "handleStateChange e bm contentName cc s =
           (foldl (\<lambda>st pos. publishState e pos
                     (Some (if bit newByte (bitIndexOf pos) then CHR ''1'' else CHR ''0''))
                     2 (bitIndexOf pos) contentName st) s ?ps)
           \<lparr>statesPrevious := (statesPrevious s)(contentName \<mapsto> bm)\<rparr>"
    using handleStateChange_one_byte [OF assms(1,2,3) neq assms(6), of e cc]
    by (simp add: assms(4) relevantPosition_2)
  obtain extra where extra:
    "published (foldl (\<lambda>st pos. publishState e pos
                     (Some (if bit newByte (bitIndexOf pos) then CHR ''1'' else CHR ''0''))
                     2 (bitIndexOf pos) contentName st) s ?ps) = published s @ extra"
    "\<forall>x \<in> set extra. \<exists>pos \<in> set ?ps. fst x = topic pos"
    using foldl_publishState_published
      [of e "\<lambda>pos. Some (if bit newByte (bitIndexOf pos) then CHR ''1'' else CHR ''0'')"
          2 bitIndexOf contentName s ?ps]
    by blast
  have "\<forall>x \<in> set extra. \<exists>pos \<in> set (positions cc). fst x = topic pos
                    \<and> (case parseInt16 (hex pos) of None \<Rightarrow> False | Some k \<Rightarrow> 16 \<le> k \<and> k < 24)
                    \<and> bit newByte (bitIndexOf pos) \<noteq> bit oldByte (bitIndexOf pos)"
    using extra(2) by fastforce
  with extra(1) eq show ?thesis by auto
qed

section \<open>One flipped bit in an SB frame\<close>

lemma zip_upt_set:
  "((i, v) \<in> set (zip [0 ..< length xs] xs)) = (i < length xs \<and> v = xs ! i)"
proof
  assume "(i, v) \<in> set (zip [0 ..< length xs] xs)"
  then show "i < length xs \<and> v = xs ! i"
    by (auto simp add: set_zip)
next
  assume h: "i < length xs \<and> v = xs ! i"
  then have "(i, v) = zip [0 ..< length xs] xs ! i" by simp
  moreover have "i < length (zip [0 ..< length xs] xs)" using h by simp
  ultimately show "(i, v) \<in> set (zip [0 ..< length xs] xs)"
    by (metis nth_mem)
qed

lemma zip_upt_distinct: "distinct (map fst (zip [0 ..< length xs] xs))"
  by simp

lemma relevant_bit_address:
  assumes "b < 8"
  shows "(relevantPosition i0 pos \<and> bitIndexOf pos = b)
         = (parseInt16 (hex pos) = Some (int (8 * i0 + b)))"
proof (cases "parseInt16 (hex pos)")
  case None
  then show ?thesis by (simp add: relevantPosition_def)
next
  case (Some k)
  show ?thesis
  proof
    assume h: "relevantPosition i0 pos \<and> bitIndexOf pos = b"
    then have k: "int i0 * 8 \<le> k" "k < (int i0 + 1) * 8" "nat k mod 8 = b"
      using Some by (simp_all add: relevantPosition_def bitIndexOf_def)
    have "0 \<le> k" using k(1) by (rule order_trans [rotated]) simp
    then obtain m where m: "k = int m" using nonneg_int_cases by blast
    have le: "i0 * 8 \<le> m" and less: "m < (i0 + 1) * 8"
      using k(1,2) unfolding m by simp_all
    from le obtain d where d: "m = i0 * 8 + d" using le_Suc_ex by blast
    with less have "d < 8" by simp
    then have "m mod 8 = d" by (simp add: d)
    with k(3) have "d = b" by (simp add: m)
    with d have "nat k = 8 * i0 + b" by (simp add: m)
    with k(1) show "parseInt16 (hex pos) = Some (int (8 * i0 + b))"
      using Some by simp
  next
    assume p: "parseInt16 (hex pos) = Some (int (8 * i0 + b))"
    have "nat (int (8 * i0 + b)) mod 8 = b"
      using assms by (simp only: nat_int) simp
    moreover have "int i0 * 8 \<le> int (8 * i0 + b)" by simp
    moreover have "int (8 * i0 + b) < (int i0 + 1) * 8" using assms by simp
    ultimately show "relevantPosition i0 pos \<and> bitIndexOf pos = b"
      by (simp only: relevantPosition_def bitIndexOf_def p option.case)
  qed
qed

lemma flip_bit_differs:
  "(bit (flip_bit b (a::nat)) k \<noteq> bit a k) = (k = b)"
  by (auto simp add: bit_flip_bit_iff)

lemma statePayload_members:
  "\<exists>members. statePayload e pos n st s = Json members
       \<and> map_of members ''state'' = Some (JStr st)
       \<and> map_of members ''last_triggered'' = Some (JStr (toISOString e s))"
  by (cases "name_ha pos"; cases "type pos"; cases "location pos")
     (simp_all add: statePayload_def jsonObject_def)

lemma publishState_published_named:
  assumes "name pos = Some n" and "n \<noteq> []"
      and "lastPublishedStates s (topic pos) \<noteq> Some (mapBinaryValue bv (inverted pos))"
  shows "published (publishState e pos bv i j c s)
         = published s @ [(topic pos, statePayload e pos n (mapBinaryValue bv (inverted pos)) s, True)]"
  using assms(3) by (simp add: publishState_named [OF assms(1,2)] Let_def)

lemma parseData_SB:
  assumes "getMsgType hexStr = Msg SB"
  shows "snd (parseData e hexStr data s)
         = (decodeHex e data ''MELDEBEREICHE'' (logger DEBUG (Parsed_msgType (Msg SB)) s))
             \<lparr>readyToSendData := True\<rparr>"
  by (simp add: parseData_def Let_def assms)

lemma decodeHex_MELDEBEREICHE:
  "decodeHex e data ''MELDEBEREICHE'' s
   = handleStateChange e
       (zip [0 ..< length (drop (offset (MELDEBEREICHE (cfg e))) data)]
            (drop (offset (MELDEBEREICHE (cfg e))) data))
       ''MELDEBEREICHE'' (MELDEBEREICHE (cfg e)) s"
  by (simp add: decodeHex_def Telenot_area_def Let_def)

text \<open>
  C3, as the code has it. Feeding an SB frame whose payload, compared with the stored
  snapshot of MELDEBEREICHE, flips exactly one bit, where that bit is the bit address of
  exactly one catalog position, the position is named and inverted, the stored bit was 1
  and the state last published to its topic is not ON, results in exactly one publish,
  to that position's topic, whose JSON object has state ON and the timestamp read from
  the clock. (The state of a position is ON exactly when it is inverted and the bit is
  0, or not inverted and the bit is 1.)
\<close>

theorem SB_frame_one_bit:
  assumes sb: "getMsgType hexStr = Msg SB"
      and prev: "statesPrevious s ''MELDEBEREICHE'' = Some prevMap"
      and payload: "payload = drop (offset (MELDEBEREICHE (cfg e))) data"
      and i0: "i0 < length payload"
      and old: "map_of prevMap i0 = Some oldByte"
      and b: "b < 8"
      and prior: "bit oldByte b"
      and flip: "payload ! i0 = flip_bit b oldByte"
      and others: "\<forall>i < length payload. i \<noteq> i0 \<longrightarrow> map_of prevMap i = Some (payload ! i)"
      and cat: "[p \<leftarrow> positions (MELDEBEREICHE (cfg e)).
                   parseInt16 (hex p) = Some (int (8 * i0 + b))] = [pos]"
      and inv: "inverted pos"
      and nm: "name pos = Some n" "n \<noteq> []"
      and last: "lastPublishedStates s (topic pos) \<noteq> Some ''ON''"
  shows "published (snd (parseData e hexStr data s))
           = published s @
               [(topic pos,
                 statePayload e pos n ''ON'' (logger DEBUG (Parsed_msgType (Msg SB)) s), True)]
         \<and> (\<exists>members.
               statePayload e pos n ''ON'' (logger DEBUG (Parsed_msgType (Msg SB)) s) = Json members
               \<and> map_of members ''state'' = Some (JStr ''ON'')
               \<and> map_of members ''last_triggered''
                   = Some (JStr (toISOString e (logger DEBUG (Parsed_msgType (Msg SB)) s))))
         \<and> (\<forall>v isInverted.
               mapBinaryValue v isInverted
                 = (if (isInverted \<and> v = Some CHR ''0'') \<or> (\<not> isInverted \<and> v = Some CHR ''1'')
                    then ''ON'' else ''OFF''))"
proof -
  let ?s0 = "logger DEBUG (Parsed_msgType (Msg SB)) s"
  let ?bm = "zip [0 ..< length payload] payload"
  let ?new = "flip_bit b oldByte"
  have p0: "statesPrevious ?s0 ''MELDEBEREICHE'' = Some prevMap"
    using prev by simp
  have mem: "(i0, ?new) \<in> set ?bm"
    using i0 flip by (simp add: zip_upt_set)
  have "bit ?new b \<noteq> bit oldByte b"
    using flip_bit_differs [of b oldByte b] by simp
  then have "?new \<noteq> oldByte" by auto
  then have neq: "map_of prevMap i0 \<noteq> Some ?new"
    using old by simp
  have rest: "\<forall>(i, v) \<in> set ?bm. i \<noteq> i0 \<longrightarrow> map_of prevMap i = Some v"
    using others by (auto simp add: zip_upt_set)
  have filt: "[p \<leftarrow> positions (MELDEBEREICHE (cfg e)).
                relevantPosition i0 p
                \<and> bit ?new (bitIndexOf p)
                    \<noteq> bit (case map_of prevMap i0 of None \<Rightarrow> 0 | Some v \<Rightarrow> v) (bitIndexOf p)]
              = [pos]"
  proof -
    have "\<And>p. (relevantPosition i0 p \<and> bit ?new (bitIndexOf p) \<noteq> bit oldByte (bitIndexOf p))
               = (parseInt16 (hex p) = Some (int (8 * i0 + b)))"
      using relevant_bit_address [OF b] by (simp only: flip_bit_differs)
    then show ?thesis
      using cat by (simp add: old)
  qed
  have "pos \<in> set [p \<leftarrow> positions (MELDEBEREICHE (cfg e)).
                   parseInt16 (hex p) = Some (int (8 * i0 + b))]"
    by (simp only: cat) simp
  then have "parseInt16 (hex pos) = Some (int (8 * i0 + b))" by simp
  then have bi: "bitIndexOf pos = b"
    using relevant_bit_address [OF b, of i0 pos] by simp
  have nb: "\<not> bit ?new b"
    using prior flip_bit_differs [of b oldByte b] by simp
  have state: "mapBinaryValue (Some CHR ''0'') (inverted pos) = ''ON''"
    using inv by (simp add: mapBinaryValue_def)
  have last0: "lastPublishedStates ?s0 (topic pos)
                 \<noteq> Some (mapBinaryValue (Some CHR ''0'') (inverted pos))"
    using last by (simp add: state)
  have hs: "handleStateChange e ?bm ''MELDEBEREICHE'' (MELDEBEREICHE (cfg e)) ?s0
            = (publishState e pos (Some CHR ''0'') i0 b ''MELDEBEREICHE'' ?s0)
                \<lparr>statesPrevious := (statesPrevious ?s0)(''MELDEBEREICHE'' \<mapsto> ?bm)\<rparr>"
    using handleStateChange_one_byte [OF p0 zip_upt_distinct mem neq rest, of e "MELDEBEREICHE (cfg e)"]
    by (simp only: filt) (simp add: bi nb)
  have "published (snd (parseData e hexStr data s))
          = published (publishState e pos (Some CHR ''0'') i0 b ''MELDEBEREICHE'' ?s0)"
    by (simp add: parseData_SB [OF sb] decodeHex_MELDEBEREICHE payload [symmetric] hs)
  also have "\<dots> = published ?s0 @ [(topic pos, statePayload e pos n ''ON'' ?s0, True)]"
    using publishState_published_named [OF nm last0] by (simp add: state)
  finally have pub: "published (snd (parseData e hexStr data s))
          = published s @ [(topic pos, statePayload e pos n ''ON'' ?s0, True)]"
    by simp
  have rule: "\<forall>v isInverted.
               mapBinaryValue v isInverted
                 = (if (isInverted \<and> v = Some CHR ''0'') \<or> (\<not> isInverted \<and> v = Some CHR ''1'')
                    then ''ON'' else ''OFF'')"
    by (simp add: mapBinaryValue_def)
  show ?thesis
    using pub statePayload_members [of e pos n "''ON''" ?s0] rule by simp
qed

lemma sbFrames_hex:
  "toStringHex sbFrameBitSet = ''68abcd687302ff24000500020116''"
  "toStringHex sbFrameBitClear = ''68abcd687302ff24000500020016''"
  by (simp_all add: toStringHex_def byteToHex_def sbFrameBitSet_def sbFrameBitClear_def)

lemma sbFrames_type:
  "getMsgType (toStringHex sbFrameBitSet) = Msg SB"
  "getMsgType (toStringHex sbFrameBitClear) = Msg SB"
  by (simp_all only: sbFrames_hex) (simp_all add: classifier_defs)

lemma invertedSensor_facts:
  "name invertedSensor = Some ''Test Position 1''"
  "topic invertedSensor = ''test/topic/1''"
  "inverted invertedSensor"
  "parseInt16 (hex invertedSensor) = Some 16"
  "mapBinaryValue (Some CHR ''1'') (inverted invertedSensor) = ''OFF''"
  "mapBinaryValue (Some CHR ''0'') (inverted invertedSensor) = ''ON''"
  by (simp_all add: invertedSensor_def mapBinaryValue_def parseInt16_def isWhiteSpace_def
      isHexDigit_def hexDigitValue_def)

lemma example_area:
  "offset (MELDEBEREICHE (cfg exampleEnv)) = 10"
  "positions (MELDEBEREICHE (cfg exampleEnv)) = [invertedSensor]"
  by (simp_all add: exampleEnv_def exampleConfig_def)

lemma bits_0_1:
  "\<not> bit (0::nat) k" "bit (1::nat) 0" "\<not> bit (1::nat) (Suc k)"
  "bit (Suc 0) 0" "\<not> bit (Suc 0) (Suc k)"
  by (simp_all add: bit_0 bit_Suc)

lemma sbFrames_payload:
  "zip [0 ..< length (drop 10 sbFrameBitSet)] (drop 10 sbFrameBitSet)
     = [(0, 0), (1, 2), (2, 1), (3, 22)]"
  "zip [0 ..< length (drop 10 sbFrameBitClear)] (drop 10 sbFrameBitClear)
     = [(0, 0), (1, 2), (2, 0), (3, 22)]"
  by (simp_all add: sbFrameBitSet_def sbFrameBitClear_def upt_rec)

lemma sbFrameBitClear_drop: "drop 10 sbFrameBitClear = [0, 2, 0, 22]"
  by (simp add: sbFrameBitClear_def)

lemma afterFirstSB_unfold:
  "afterFirstSB =
     (publishState exampleEnv invertedSensor (Some CHR ''1'') 2 0 ''MELDEBEREICHE''
        ((logger DEBUG (Parsed_msgType (Msg SB)) connectedBridge)
           \<lparr>statesPrevious := [''MELDEBEREICHE'' \<mapsto> [(0, 0), (1, 2), (2, 1), (3, 22)]]\<rparr>))
     \<lparr>readyToSendData := True\<rparr>"
proof -
  have "afterFirstSB =
          (handleStateChange exampleEnv [(0, 0), (1, 2), (2, 1), (3, 22)] ''MELDEBEREICHE''
             (MELDEBEREICHE (cfg exampleEnv)) (logger DEBUG (Parsed_msgType (Msg SB)) connectedBridge))
          \<lparr>readyToSendData := True\<rparr>"
    by (simp only: afterFirstSB_def parseData_SB [OF sbFrames_type(1)] decodeHex_MELDEBEREICHE
        example_area sbFrames_payload)
  also have "handleStateChange exampleEnv [(0, 0), (1, 2), (2, 1), (3, 22)] ''MELDEBEREICHE''
             (MELDEBEREICHE (cfg exampleEnv)) (logger DEBUG (Parsed_msgType (Msg SB)) connectedBridge)
           = publishState exampleEnv invertedSensor (Some CHR ''1'') 2 0 ''MELDEBEREICHE''
        ((logger DEBUG (Parsed_msgType (Msg SB)) connectedBridge)
           \<lparr>statesPrevious := [''MELDEBEREICHE'' \<mapsto> [(0, 0), (1, 2), (2, 1), (3, 22)]]\<rparr>)"
    by (simp add: handleStateChange_def example_area invertedSensor_facts charAt_reverseBinary
        bits_0_1 connectedBridge_def initialBridge_def)
  finally show ?thesis .
qed

lemma afterFirstSB_eval:
  "statesPrevious afterFirstSB ''MELDEBEREICHE'' = Some [(0, 0), (1, 2), (2, 1), (3, 22)]"
  "lastPublishedStates afterFirstSB ''test/topic/1'' = Some ''OFF''"
  "map fst (published afterFirstSB) = [''test/topic/1'']"
  by (simp_all add: afterFirstSB_unfold publishState_named [OF invertedSensor_facts(1)]
      invertedSensor_facts mapBinaryValue_def Let_def connectedBridge_def initialBridge_def
      exampleEnv_def)

lemma statePayload_invertedSensor:
  "statePayload exampleEnv invertedSensor ''Test Position 1'' st s
     = Json [(''id'', JStr ''test_position_1_10''), (''name'', JStr ''Test HA 1''),
             (''type'', JStr ''binary''), (''state'', JStr st),
             (''location'', JStr ''Test Location''),
             (''last_triggered'', JStr ''2024-01-01T00:00:00.000Z'')]"
  by (simp add: statePayload_def jsonObject_def invertedSensor_def toLowerCase_def
      charToLowerCase_def upperLetters_def lowerLetters_def isWhiteSpace_def toISOString_def
      exampleEnv_def)

theorem SB_frame_one_bit_witness:
  "getMsgType (toStringHex sbFrameBitClear) = Msg SB
   \<and> statesPrevious afterFirstSB ''MELDEBEREICHE'' = Some [(0, 0), (1, 2), (2, 1), (3, 22)]
   \<and> bit (1::nat) 0
   \<and> drop 10 sbFrameBitClear ! 2 = flip_bit 0 (1::nat)
   \<and> [p \<leftarrow> positions (MELDEBEREICHE (cfg exampleEnv)). parseInt16 (hex p) = Some 16]
       = [invertedSensor]
   \<and> inverted invertedSensor
   \<and> lastPublishedStates afterFirstSB (topic invertedSensor) \<noteq> Some ''ON''
   \<and> published (snd (parseData exampleEnv (toStringHex sbFrameBitClear) sbFrameBitClear afterFirstSB))
       = published afterFirstSB @
           [(''test/topic/1'',
             Json [(''id'', JStr ''test_position_1_10''), (''name'', JStr ''Test HA 1''),
                   (''type'', JStr ''binary''), (''state'', JStr ''ON''),
                   (''location'', JStr ''Test Location''),
                   (''last_triggered'', JStr ''2024-01-01T00:00:00.000Z'')],
             True)]"
proof -
  have h1: "getMsgType (toStringHex sbFrameBitClear) = Msg SB" by (rule sbFrames_type)
  have h2: "statesPrevious afterFirstSB ''MELDEBEREICHE'' = Some [(0, 0), (1, 2), (2, 1), (3, 22)]"
    by (rule afterFirstSB_eval)
  have h3: "[0, 2, 0, 22] = drop (offset (MELDEBEREICHE (cfg exampleEnv))) sbFrameBitClear"
    by (simp add: example_area sbFrameBitClear_drop)
  have h4: "(2::nat) < length [0::nat, 2, 0, 22]" by simp
  have h5: "map_of [(0::nat, 0::nat), (1, 2), (2, 1), (3, 22)] 2 = Some 1" by simp
  have h6: "(0::nat) < 8" by simp
  have h7: "bit (1::nat) 0" by (simp add: bit_0)
  have fl: "flip_bit 0 (1::nat) = 0"
    by (rule bit_eqI) (auto simp add: bit_flip_bit_iff bit_0 bit_Suc_0_iff)
  have fl': "flip_bit 0 (Suc 0) = 0" using fl by simp
  have h8: "[0::nat, 2, 0, 22] ! 2 = flip_bit 0 (1::nat)" by (simp add: fl')
  have h9: "\<forall>i < length [0::nat, 2, 0, 22]. i \<noteq> 2 \<longrightarrow>
              map_of [(0::nat, 0::nat), (1, 2), (2, 1), (3, 22)] i = Some ([0::nat, 2, 0, 22] ! i)"
    by (simp add: less_Suc_eq nth_Cons')
  have h10: "[p \<leftarrow> positions (MELDEBEREICHE (cfg exampleEnv)).
               parseInt16 (hex p) = Some (int (8 * 2 + 0))] = [invertedSensor]"
    by (simp add: example_area invertedSensor_facts)
  have h11: "inverted invertedSensor" by (rule invertedSensor_facts)
  have h12: "name invertedSensor = Some ''Test Position 1''" by (rule invertedSensor_facts)
  have h13: "''Test Position 1'' \<noteq> []" by simp
  have h14: "lastPublishedStates afterFirstSB (topic invertedSensor) \<noteq> Some ''ON''"
    by (simp add: invertedSensor_facts afterFirstSB_eval)
  show ?thesis
    using h1 h2 h7 h8 h10 h11 h14
      SB_frame_one_bit [OF h1 h2 h3 h4 h5 h6 h7 h8 h9 h10 h11 h12 h13 h14]
    by (simp add: statePayload_invertedSensor invertedSensor_facts sbFrameBitClear_drop fl')
qed

lemma relevantPosition_invertedSensor:
  "relevantPosition i invertedSensor = (i = 2)"
  "bitIndexOf invertedSensor = 0"
  by (auto simp add: relevantPosition_def bitIndexOf_def invertedSensor_facts)

text \<open>
  The specification expects OFF. With the stored bit 1 the flipped bit is 0, and an
  inverted position with bit 0 is ON: after a first frame with the bit set, the frame
  with the bit cleared publishes ON.
\<close>

theorem SB_frame_inverted_counterexample:
  "getMsgType (toStringHex sbFrameBitClear) = Msg SB
   \<and> inverted invertedSensor
   \<and> statesPrevious afterFirstSB ''MELDEBEREICHE'' = Some [(0, 0), (1, 2), (2, 1), (3, 22)]
   \<and> charAt (reverseBinary 1) (bitIndexOf invertedSensor) = Some CHR ''1''
   \<and> published (snd (parseData exampleEnv (toStringHex sbFrameBitClear) sbFrameBitClear afterFirstSB))
       = published afterFirstSB @
           [(''test/topic/1'',
             Json [(''id'', JStr ''test_position_1_10''), (''name'', JStr ''Test HA 1''),
                   (''type'', JStr ''binary''), (''state'', JStr ''ON''),
                   (''location'', JStr ''Test Location''),
                   (''last_triggered'', JStr ''2024-01-01T00:00:00.000Z'')],
             True)]
   \<and> JStr ''ON'' \<noteq> JStr ''OFF''"
proof -
  have "snd (parseData exampleEnv (toStringHex sbFrameBitClear) sbFrameBitClear afterFirstSB)
        = (handleStateChange exampleEnv [(0, 0), (1, 2), (2, 0), (3, 22)] ''MELDEBEREICHE''
             (MELDEBEREICHE (cfg exampleEnv)) (logger DEBUG (Parsed_msgType (Msg SB)) afterFirstSB))
          \<lparr>readyToSendData := True\<rparr>"
    by (simp only: parseData_SB [OF sbFrames_type(2)] decodeHex_MELDEBEREICHE
        example_area sbFrames_payload)
  moreover have
    "handleStateChange exampleEnv [(0, 0), (1, 2), (2, 0), (3, 22)] ''MELDEBEREICHE''
             (MELDEBEREICHE (cfg exampleEnv)) (logger DEBUG (Parsed_msgType (Msg SB)) afterFirstSB)
     = (publishState exampleEnv invertedSensor (Some CHR ''0'') 2 0 ''MELDEBEREICHE''
          (logger DEBUG (Parsed_msgType (Msg SB)) afterFirstSB))
       \<lparr>statesPrevious := (statesPrevious afterFirstSB)
           (''MELDEBEREICHE'' \<mapsto> [(0, 0), (1, 2), (2, 0), (3, 22)])\<rparr>"
    by (simp add: handleStateChange_def afterFirstSB_eval example_area processStateChanges_bits
        relevantPosition_invertedSensor bits_0_1 publishState_statesPrevious)
  moreover have
    "published (publishState exampleEnv invertedSensor (Some CHR ''0'') 2 0 ''MELDEBEREICHE''
          (logger DEBUG (Parsed_msgType (Msg SB)) afterFirstSB))
     = published afterFirstSB @
         [(''test/topic/1'', statePayload exampleEnv invertedSensor ''Test Position 1'' ''ON''
              (logger DEBUG (Parsed_msgType (Msg SB)) afterFirstSB), True)]"
    by (simp add: publishState_named [OF invertedSensor_facts(1)] Let_def invertedSensor_facts
        afterFirstSB_eval mapBinaryValue_def)
  ultimately show ?thesis
    by (simp add: sbFrames_type invertedSensor_facts afterFirstSB_eval statePayload_invertedSensor
        charAt_reverseBinary relevantPosition_invertedSensor bits_0_1)
qed

section \<open>Two snapshots that differ in byte 2\<close>

lemma testSensor2_facts:
  "name testSensor2 = Some ''Test Sensor 2''"
  "topic testSensor2 = ''test/topic/2''"
  "mapBinaryValue (Some CHR ''1'') (inverted testSensor2) = ''ON''"
  "mapBinaryValue (Some CHR ''0'') (inverted testSensor2) = ''OFF''"
  by (simp_all add: testSensor2_def mapBinaryValue_def)

lemma parse_test_hex:
  "parseInt16 (hex testSensor) = Some 16"
  "parseInt16 (hex testSensor2) = Some 17"
  "bitIndexOf testSensor = 0"
  "bitIndexOf testSensor2 = 1"
  by (simp_all add: bitIndexOf_def testSensor_def testSensor2_def parseInt16_def isWhiteSpace_def
      isHexDigit_def hexDigitValue_def)

lemma seenBridge_unfold:
  "seenBridge =
     publishState exampleEnv testSensor2 (Some CHR ''0'') 2 1 ''TEST_CONTENT''
       (publishState exampleEnv testSensor (Some CHR ''0'') 2 0 ''TEST_CONTENT''
          (initialBridge\<lparr>statesPrevious := [''TEST_CONTENT'' \<mapsto> [(2, 0)]]\<rparr>))"
  by (simp add: seenBridge_def handleStateChange_def testContentConfig_def parse_test_hex
      charAt_reverseBinary bits_0_1 initialBridge_def)

lemma seenBridge_eval:
  "statesPrevious seenBridge ''TEST_CONTENT'' = Some [(2, 0)]"
  "map fst (published seenBridge) = [''test/topic'', ''test/topic/2'']"
  "lastPublishedStates seenBridge ''test/topic'' = Some ''OFF''"
  "lastPublishedStates seenBridge ''test/topic/2'' = Some ''OFF''"
  by (simp_all add: seenBridge_unfold
      publishState_named [OF testSensor_facts(2)] publishState_named [OF testSensor2_facts(1)]
      testSensor_facts testSensor2_facts Let_def initialBridge_def exampleEnv_def)

lemma changed_positions_example:
  "[pos \<leftarrow> positions testContentConfig.
      (case parseInt16 (hex pos) of None \<Rightarrow> False | Some k \<Rightarrow> 16 \<le> k \<and> k < 24)
      \<and> bit (1::nat) (bitIndexOf pos) \<noteq> bit (0::nat) (bitIndexOf pos)] = [testSensor]"
  by (simp add: testContentConfig_def parse_test_hex bits_0_1)

theorem handleStateChange_byte_2_witness:
  "statesPrevious seenBridge ''TEST_CONTENT'' = Some [(2, 0)]
   \<and> distinct (map fst [(2::nat, 1::nat)])
   \<and> (2, 1) \<in> set [(2::nat, 1::nat)]
   \<and> map_of [(2::nat, 0::nat)] 2 = Some 0
   \<and> (1::nat) \<noteq> 0
   \<and> handleStateChange exampleEnv [(2, 1)] ''TEST_CONTENT'' testContentConfig seenBridge
       = (publishState exampleEnv testSensor (Some CHR ''1'') 2 0 ''TEST_CONTENT'' seenBridge)
           \<lparr>statesPrevious := (statesPrevious seenBridge)(''TEST_CONTENT'' \<mapsto> [(2, 1)])\<rparr>"
proof -
  have h1: "statesPrevious seenBridge ''TEST_CONTENT'' = Some [(2, 0)]"
    by (rule seenBridge_eval)
  have h2: "distinct (map fst [(2::nat, 1::nat)])" by simp
  have h3: "(2, 1) \<in> set [(2::nat, 1::nat)]" by simp
  have h4: "map_of [(2::nat, 0::nat)] 2 = Some 0" by simp
  have h5: "(1::nat) \<noteq> 0" by simp
  have h6: "\<forall>(i, v) \<in> set [(2::nat, 1::nat)]. i \<noteq> 2 \<longrightarrow> map_of [(2::nat, 0::nat)] i = Some v"
    by simp
  have "handleStateChange exampleEnv [(2, 1)] ''TEST_CONTENT'' testContentConfig seenBridge
       = (publishState exampleEnv testSensor (Some CHR ''1'') 2 0 ''TEST_CONTENT'' seenBridge)
           \<lparr>statesPrevious := (statesPrevious seenBridge)(''TEST_CONTENT'' \<mapsto> [(2, 1)])\<rparr>"
    using handleStateChange_byte_2 [OF h1 h2 h3 h4 h5 h6, of exampleEnv testContentConfig]
    by (simp only: changed_positions_example) (simp add: parse_test_hex bits_0_1)
  with h1 h2 h3 h4 h5 show ?thesis by blast
qed

text \<open>
  As the specification words it, the property fails: when byte 2 changes from 0 to 1, the position at bit 17
  lies in [16, 24) and is not reported; only the position at bit 16 is.
\<close>

theorem handleStateChange_unchanged_bit_counterexample:
  "parseInt16 (hex testSensor2) = Some 17
   \<and> testSensor2 \<in> set (positions testContentConfig)
   \<and> statesPrevious seenBridge ''TEST_CONTENT'' = Some [(2, 0)]
   \<and> map fst (published seenBridge) = [''test/topic'', ''test/topic/2'']
   \<and> map fst (published
         (handleStateChange exampleEnv [(2, 1)] ''TEST_CONTENT'' testContentConfig seenBridge))
       = [''test/topic'', ''test/topic/2'', ''test/topic'']"
proof -
  have "handleStateChange exampleEnv [(2, 1)] ''TEST_CONTENT'' testContentConfig seenBridge
       = (publishState exampleEnv testSensor (Some CHR ''1'') 2 0 ''TEST_CONTENT'' seenBridge)
           \<lparr>statesPrevious := (statesPrevious seenBridge)(''TEST_CONTENT'' \<mapsto> [(2, 1)])\<rparr>"
    by (simp add: handleStateChange_def seenBridge_eval processStateChanges_bits
        testContentConfig_def relevantPosition_def parse_test_hex bits_0_1
        publishState_statesPrevious)
  then show ?thesis
    by (simp add: parse_test_hex testContentConfig_def seenBridge_eval
        publishState_named [OF testSensor_facts(2)] testSensor_facts Let_def)
qed

end
